theory Spec2Isabelle
  imports Main
begin

text \<open>
  The client of the text adventure, \<^verbatim>\<open>app/static/js/app.js\<close>: the request pipeline
  (\<^verbatim>\<open>fetchWithAuth\<close>), the refresh of the access token, logout and the error box, the
  submission of a turn and its retry, the suggested choices, the loading of a session and
  the editing of the narrative. The page (the state object, local storage, the parts of the
  document these functions touch) is a record that every function takes and returns; the
  server is the list of the replies it is going to give, one for each call issued.
\<close>

section \<open>JavaScript values\<close>

text \<open>
  A JavaScript string is a sequence of UTF-16 code units; \<open>js\<close> embeds an ASCII literal.
  The messages of \<^verbatim>\<open>app.js\<close> that are written in Chinese are given by their code units.
\<close>

type_synonym jsstring = "nat list"

definition js :: "string \<Rightarrow> jsstring" where
  "js s = map of_char s"

text \<open>
  The values the client handles: what \<^verbatim>\<open>JSON.parse\<close> returns, and \<^verbatim>\<open>undefined\<close>.
  Numbers are the integers of the API (ids, indices, counts). An object is the list of its
  own properties, a property being read at its first occurrence.
\<close>

datatype jsval =
    Undefined
  | Null
  | Bool bool
  | Num int
  | Str jsstring
  | Arr "jsval list"
  | Obj "(jsstring \<times> jsval) list"

datatype error = TypeError | SyntaxError | NetworkError | NotFoundError

text \<open>
  What running a piece of the client gives: it returns a value, it throws, or it is still
  awaiting a reply of the server that has not come (\<open>Pending\<close>).
\<close>

datatype 'a outcome = Return 'a | Throw error | Pending

fun truthy :: "jsval \<Rightarrow> bool" where
  "truthy Undefined = False"
| "truthy Null = False"
| "truthy (Bool b) = b"
| "truthy (Num n) = (n \<noteq> 0)"
| "truthy (Str s) = (s \<noteq> [])"
| "truthy (Arr xs) = True"
| "truthy (Obj kvs) = True"

text \<open>
  \<^verbatim>\<open>v.k\<close> for a property name \<open>k\<close> of the API (none of them is inherited from a
  prototype, \<^verbatim>\<open>length\<close> apart): a TypeError on \<^verbatim>\<open>null\<close> and \<^verbatim>\<open>undefined\<close>.
\<close>

fun getp :: "jsval \<Rightarrow> jsstring \<Rightarrow> jsval outcome" where
  "getp Undefined k = Throw TypeError"
| "getp Null k = Throw TypeError"
| "getp (Obj kvs) k = (case map_of kvs k of Some v \<Rightarrow> Return v | None \<Rightarrow> Return Undefined)"
| "getp (Arr xs) k = (if k = js ''length'' then Return (Num (int (length xs))) else Return Undefined)"
| "getp (Str s) k = (if k = js ''length'' then Return (Num (int (length s))) else Return Undefined)"
| "getp (Bool b) k = Return Undefined"
| "getp (Num n) k = Return Undefined"

text \<open>
  Decimal digits of a natural number, and \<^verbatim>\<open>String(v)\<close>. A number \<open>Num n\<close> stands
  for an integer the client can hold exactly (below \<open>2^53\<close> in magnitude), which JavaScript
  writes with its decimal digits. How it writes a number with a fraction or beyond that range
  is not modelled, and no statement below depends on it.
\<close>

function nat_digits :: "nat \<Rightarrow> jsstring" where
  "nat_digits n = (if n < 10 then [48 + n] else nat_digits (n div 10) @ [48 + n mod 10])"
  by pat_completeness auto
termination
  by (relation "measure id") auto

declare nat_digits.simps [simp del]

fun join :: "jsstring \<Rightarrow> jsstring list \<Rightarrow> jsstring" where
  "join sep [] = []"
| "join sep [s] = s"
| "join sep (s # t # ss) = s @ sep @ join sep (t # ss)"

fun ToString :: "jsval \<Rightarrow> jsstring" where
  "ToString Undefined = js ''undefined''"
| "ToString Null = js ''null''"
| "ToString (Bool b) = (if b then js ''true'' else js ''false'')"
| "ToString (Num n) = (if n < 0 then js ''-'' @ nat_digits (nat (- n)) else nat_digits (nat n))"
| "ToString (Str s) = s"
| "ToString (Arr xs) =
     join (js '','') (map (\<lambda>x. case x of Undefined \<Rightarrow> [] | Null \<Rightarrow> [] | _ \<Rightarrow> ToString x) xs)"
| "ToString (Obj kvs) = js ''[object Object]''"

text \<open>\<^verbatim>\<open>String.prototype.trim\<close>: the white space and line terminators of ECMAScript.\<close>

definition is_space :: "nat \<Rightarrow> bool" where
  "is_space c \<longleftrightarrow>
     c \<in> {0x09, 0x0A, 0x0B, 0x0C, 0x0D, 0x20, 0xA0, 0x1680, 0x2028, 0x2029, 0x202F, 0x205F,
          0x3000, 0xFEFF} \<or> (0x2000 \<le> c \<and> c \<le> 0x200A)"

definition trim :: "jsstring \<Rightarrow> jsstring" where
  "trim s = rev (dropWhile is_space (rev (dropWhile is_space s)))"

section \<open>The browser: page state, local storage, network\<close>

record request =
  url :: jsstring
  http_method :: "jsstring option"
  headers :: "(jsstring \<times> jsstring) list"
  body :: "jsval option"

text \<open>
  A response: its status and its body, \<open>None\<close> when the body is not JSON
  (\<^verbatim>\<open>response.json()\<close> rejects).
\<close>

record response =
  status :: nat
  payload :: "jsval option"

definition ok :: "response \<Rightarrow> bool" where
  "ok r \<longleftrightarrow> 200 \<le> status r \<and> status r \<le> 299"

definition response_json :: "response \<Rightarrow> jsval outcome" where
  "response_json r = (case payload r of None \<Rightarrow> Throw SyntaxError | Some v \<Rightarrow> Return v)"

text \<open>What the network answers to one call: a response, or a transport failure.\<close>

datatype net_reply = Reply response | NetFail

text \<open>The callbacks the page keeps for its buttons.\<close>

datatype callback = HandleLogout

record error_box =
  shown :: bool
  message :: jsstring
  retry :: "callback option"
  feedback_link :: bool

text \<open>
  An entry of the game log. A narrator entry (\<^verbatim>\<open>type === 'ai'\<close>) has its text in a
  content element and an edit button, whose handler has captured that text and the history
  index given to \<^verbatim>\<open>appendLog\<close>; \<open>editing\<close> is the text area while the entry is being
  edited. Any other entry is its class (\<^verbatim>\<open>type\<close>) and its text.
\<close>

record narrative =
  shown_text :: jsval
  history_index :: jsval
  edited_class :: bool
  edited_mark :: bool
  editing :: "jsstring option"

datatype log_entry =
    Plain jsval jsval
  | Narrative narrative
  | Skeleton

record suggestion_btn =
  displayText :: jsval
  actionCommand :: jsval
  details :: "jsval list option"
  btn_disabled :: bool

record world =
  accessToken :: jsval
  currentSessionId :: jsval
  currentWorldName :: jsval
  lastPlayerAction :: jsval
  localStorage :: "jsstring \<rightharpoonup> jsstring"
  view :: jsstring
  globalError :: error_box
  gameWorldName :: jsval
  gameLog :: "log_entry list"
  gameSuggestions :: "suggestion_btn list"
  actionInput :: jsstring
  actionInput_disabled :: bool
  retryAiBtn_shown :: bool
  retryAiBtn_disabled :: bool
  retryAiBtn_text :: jsstring
  alerts :: "jsstring list"
  network :: "request list"
  replies :: "net_reply list"

text \<open>
  The page as \<^verbatim>\<open>app.js\<close> finds it on load (no view shown yet), with the given local
  storage and the replies the server is going to give.
\<close>

definition page :: "(jsstring \<rightharpoonup> jsstring) \<Rightarrow> net_reply list \<Rightarrow> world" where
  "page storage rs =
     \<lparr>accessToken = (case storage (js ''access_token'') of None \<Rightarrow> Null | Some t \<Rightarrow> Str t),
      currentSessionId = Null, currentWorldName = Null, lastPlayerAction = Null,
      localStorage = storage, view = [],
      globalError = \<lparr>shown = False, message = [], retry = None, feedback_link = False\<rparr>,
      gameWorldName = Undefined, gameLog = [], gameSuggestions = [],
      actionInput = [], actionInput_disabled = False,
      retryAiBtn_shown = False, retryAiBtn_disabled = False, retryAiBtn_text = [],
      alerts = [], network = [], replies = rs\<rparr>"

text \<open>
  \<^verbatim>\<open>fetch\<close>: the call is issued (and recorded in \<open>network\<close>); the next reply of the
  server answers it. With no reply left the call stays pending.
\<close>

definition fetch :: "request \<Rightarrow> world \<Rightarrow> response outcome \<times> world" where
  "fetch rq w =
     (let w1 = w\<lparr>network := network w @ [rq]\<rparr> in
      case replies w of
        [] \<Rightarrow> (Pending, w1)
      | NetFail # rs \<Rightarrow> (Throw NetworkError, w1\<lparr>replies := rs\<rparr>)
      | Reply r # rs \<Rightarrow> (Return r, w1\<lparr>replies := rs\<rparr>))"

text \<open>Sequencing: the rest runs when the first part has returned.\<close>

definition andThen ::
  "'a outcome \<times> world \<Rightarrow> ('a \<Rightarrow> world \<Rightarrow> 'b outcome \<times> world) \<Rightarrow> 'b outcome \<times> world" where
  "andThen m f =
     (case m of
        (Return v, w) \<Rightarrow> f v w
      | (Throw e, w) \<Rightarrow> (Throw e, w)
      | (Pending, w) \<Rightarrow> (Pending, w))"

lemma andThen_cong [fundef_cong]:
  "m = m' \<Longrightarrow> (\<And>v w. m' = (Return v, w) \<Longrightarrow> f v w = f' v w) \<Longrightarrow> andThen m f = andThen m' f'"
  by (auto simp: andThen_def split: prod.splits outcome.splits)

section \<open>Views, errors, logout\<close>

text \<open>
  \<^verbatim>\<open>showView\<close> clears and hides the error box, hides every view and shows the one asked
  for (the views named in \<^verbatim>\<open>app.js\<close> are taken to exist in the document).
  \<^verbatim>\<open>handleApiError\<close> fills the error box: the message, a retry button when a callback is
  given, a feedback link when asked.
\<close>

definition showView :: "jsstring \<Rightarrow> world \<Rightarrow> world" where
  "showView viewId w =
     w\<lparr>globalError := \<lparr>shown = False, message = [], retry = None, feedback_link = False\<rparr>,
       view := viewId\<rparr>"

definition handleApiError :: "jsstring \<Rightarrow> callback option \<Rightarrow> bool \<Rightarrow> world \<Rightarrow> world" where
  "handleApiError msg retryCallback feedback w =
     w\<lparr>globalError :=
         \<lparr>shown = True, message = msg, retry = retryCallback, feedback_link = feedback\<rparr>\<rparr>"

definition handleLogout :: "world \<Rightarrow> world" where
  "handleLogout w =
     showView (js ''auth-view'')
       (w\<lparr>accessToken := Null, currentSessionId := Null, currentWorldName := Null,
          localStorage := (localStorage w)(js ''access_token'' := None, js ''refresh_token'' := None)\<rparr>)"

text \<open>The retry button of the error box: it hides the box and runs the callback it was given.\<close>

definition click_error_retry :: "world \<Rightarrow> world" where
  "click_error_retry w =
     (case retry (globalError w) of
        None \<Rightarrow> w
      | Some HandleLogout \<Rightarrow> handleLogout (w\<lparr>globalError := (globalError w)\<lparr>shown := False\<rparr>\<rparr>))"

section \<open>The refresh protocol\<close>

definition refresh_request :: "jsstring \<Rightarrow> request" where
  "refresh_request tok =
     \<lparr>url = js ''/api/refresh'', http_method = Some (js ''POST''),
      headers = [(js ''Content-Type'', js ''application/json'')],
      body = Some (Obj [(js ''refresh_token'', Str tok)])\<rparr>"

definition refreshToken :: "world \<Rightarrow> bool outcome \<times> world" where
  "refreshToken w =
     (case localStorage w (js ''refresh_token'') of
        None \<Rightarrow> (Return False, w)
      | Some tok \<Rightarrow>
          if tok = [] then (Return False, w)
          else
            andThen (fetch (refresh_request tok) w) (\<lambda>response w1.
            andThen (response_json response, w1) (\<lambda>data w1.
              if ok response then
                andThen (getp data (js ''access_token''), w1) (\<lambda>t w1.
                  (Return True,
                   w1\<lparr>localStorage := (localStorage w1)(js ''access_token'' \<mapsto> ToString t),
                      accessToken := t\<rparr>))
              else
                andThen (getp data (js ''error''), w1) (\<lambda>err w1. (Return False, w1)))))"

section \<open>The request pipeline\<close>

record options =
  opt_method :: "jsstring option"
  opt_headers :: "(jsstring \<times> jsstring) list"
  opt_body :: "jsval option"

definition API_URL :: jsstring where
  "API_URL = js ''/api''"

text \<open>Setting a property of an object literal: an existing key keeps its place.\<close>

fun set_header :: "jsstring \<Rightarrow> jsstring \<Rightarrow> (jsstring \<times> jsstring) list \<Rightarrow> (jsstring \<times> jsstring) list" where
  "set_header k v [] = [(k, v)]"
| "set_header k v ((k', v') # hs) = (if k' = k then (k, v) # hs else (k', v') # set_header k v hs)"

definition pipeline_request :: "jsstring \<Rightarrow> options \<Rightarrow> world \<Rightarrow> request" where
  "pipeline_request endpoint opts w =
     (let hs = foldl (\<lambda>h (k, v). set_header k v h)
                 [(js ''Content-Type'', js ''application/json''), (js ''credentials'', js ''include'')]
                 (opt_headers opts);
          hs' = (if truthy (accessToken w)
                 then set_header (js ''Authorization'') (js ''Bearer '' @ ToString (accessToken w)) hs
                 else hs)
      in \<lparr>url = API_URL @ endpoint, http_method = opt_method opts, headers = hs', body = opt_body opts\<rparr>)"

text \<open>\<^verbatim>\<open>responseData && responseData.error === 'token_expired'\<close>\<close>

definition token_expired :: "jsval \<Rightarrow> bool" where
  "token_expired responseData \<longleftrightarrow>
     truthy responseData \<and> getp responseData (js ''error'') = Return (Str (js ''token_expired''))"

definition msg_login_expired :: jsstring where
  "msg_login_expired =
     [0x767B, 0x5F55, 0x72B6, 0x6001, 0x5DF2, 0x8FC7, 0x671F, 0xFF0C, 0x8BF7, 0x91CD, 0x65B0,
      0x767B, 0x5F55, 0x3002]"

lemma fetch_replies:
  "fetch rq w = (Return r, w1) \<Longrightarrow> length (replies w1) < length (replies w)"
  by (auto simp: fetch_def Let_def split: list.splits net_reply.splits)

lemma refreshToken_replies:
  "refreshToken w = (res, w2) \<Longrightarrow> length (replies w2) \<le> length (replies w)"
  by (auto simp: refreshToken_def andThen_def fetch_def Let_def
      split: option.splits if_splits list.splits net_reply.splits outcome.splits)

function fetchWithAuth :: "jsstring \<Rightarrow> options \<Rightarrow> world \<Rightarrow> response option outcome \<times> world" where
  "fetchWithAuth endpoint opts w =
     andThen (fetch (pipeline_request endpoint opts w) w) (\<lambda>response w1.
       if status response = 401 then
         andThen (response_json response, w1) (\<lambda>responseData w1.
           if token_expired responseData then
             andThen (refreshToken w1) (\<lambda>refreshSuccessful w2.
               if refreshSuccessful then fetchWithAuth endpoint opts w2
               else (Return None, handleLogout w2))
           else
             (Return None, handleApiError msg_login_expired (Some HandleLogout) False w1))
       else (Return (Some response), w1))"
  by pat_completeness auto
termination
proof (relation "measure (\<lambda>(endpoint, opts, w). length (replies w))", goal_cases)
  case 1
  show ?case by simp
next
  case (2 endpoint opts w response w1 responseData w1' refreshSuccessful w2)
  then show ?case
    using fetch_replies [of "pipeline_request endpoint opts w" w response w1]
      refreshToken_replies [of w1 "Return refreshSuccessful" w2]
    by simp
qed

declare fetchWithAuth.simps [simp del]

section \<open>The turn engine\<close>

text \<open>
  Two parts of the JavaScript host are taken as parameters. \<open>string_gt0 s\<close> is the
  comparison \<^verbatim>\<open>s > 0\<close> for a string (ECMAScript's conversion of a string to a number,
  which matters only when an object that is not an array brings its own \<^verbatim>\<open>length\<close>).
  \<open>sidebar_throws v\<close> says whether \<^verbatim>\<open>renderPlayerStatus(v)\<close> throws: that function
  writes the status sidebar only (attributes, location, inventory, quests, cool-downs), which
  nothing here reads.
\<close>

record host =
  string_gt0 :: "jsstring \<Rightarrow> bool"
  sidebar_throws :: "jsval \<Rightarrow> bool"

definition msg_corrupt :: jsstring where
  "msg_corrupt =
     [0x52A0, 0x8F7D, 0x5B58, 0x6863, 0x5931, 0x8D25, 0xFF1A, 0x5B58, 0x6863, 0x6570, 0x636E,
      0x4F3C, 0x4E4E, 0x5DF2, 0x635F, 0x574F, 0x6216, 0x4E0D, 0x5B8C, 0x6574, 0xFF0C, 0x65E0,
      0x6CD5, 0x4ECE, 0x4E0A, 0x6B21, 0x7684, 0x8FDB, 0x5EA6, 0x7EE7, 0x7EED, 0x3002]"

definition msg_look_around :: jsstring where
  "msg_look_around = [0x73AF, 0x987E, 0x56DB, 0x5468]"

definition msg_no_reply :: jsstring where
  "msg_no_reply = [0x4E16, 0x754C, 0x4E4B, 0x7075, 0x6CA1, 0x6709, 0x56DE, 0x5E94, 46, 46, 46, 32, 40]"

definition msg_please_retry :: jsstring where
  "msg_please_retry = [0x8BF7, 0x91CD, 0x8BD5]"

definition msg_unknown_error :: jsstring where
  "msg_unknown_error = [0x672A, 0x77E5, 0x9519, 0x8BEF]"

definition msg_connection_lost :: jsstring where
  "msg_connection_lost =
     [0x4E0E, 0x4E16, 0x754C, 0x4E4B, 0x7075, 0x7684, 0x8FDE, 0x63A5, 0x4E2D, 0x65AD, 0xFF0C,
      0x8BF7, 0x68C0, 0x67E5, 0x7F51, 0x7EDC, 0x5E76, 0x91CD, 0x8BD5, 0x3002]"

definition msg_retrying :: jsstring where
  "msg_retrying = [0x91CD, 0x8BD5, 0x4E2D, 46, 46, 46]"

definition msg_no_last_action :: jsstring where
  "msg_no_last_action =
     [0x6CA1, 0x6709, 0x627E, 0x5230, 0x4E0A, 0x6B21, 0x7684, 0x73A9, 0x5BB6, 0x884C, 0x52A8, 0x3002]"

definition msg_empty_narrative :: jsstring where
  "msg_empty_narrative = [0x5267, 0x60C5, 0x5185, 0x5BB9, 0x4E0D, 0x80FD, 0x4E3A, 0x7A7A]"

definition msg_update_failed :: jsstring where
  "msg_update_failed = [0x66F4, 0x65B0, 0x5931, 0x8D25, 58, 32]"

definition msg_local_only :: jsstring where
  "msg_local_only =
     [0x540C, 0x6B65, 0x5230, 0x670D, 0x52A1, 0x5668, 0x5931, 0x8D25, 0xFF0C, 0x4FEE, 0x6539,
      0x4EC5, 0x5728, 0x672C, 0x5730, 0x751F, 0x6548]"

text \<open>\<^verbatim>\<open>v.k\<close> where \<open>v\<close> is known not to be \<^verbatim>\<open>null\<close> or \<^verbatim>\<open>undefined\<close>.\<close>

definition propOf :: "jsval \<Rightarrow> jsstring \<Rightarrow> jsval" where
  "propOf v k = (case getp v k of Return x \<Rightarrow> x | _ \<Rightarrow> Undefined)"

text \<open>\<^verbatim>\<open>typeof v === 'object' && v !== null\<close>, and \<^verbatim>\<open>Array.isArray(v)\<close>.\<close>

fun is_object :: "jsval \<Rightarrow> bool" where
  "is_object (Obj kvs) = True"
| "is_object (Arr xs) = True"
| "is_object v = False"

fun isArray :: "jsval \<Rightarrow> bool" where
  "isArray (Arr xs) = True"
| "isArray v = False"

fun elements :: "jsval \<Rightarrow> jsval list" where
  "elements (Arr xs) = xs"
| "elements v = []"

text \<open>\<^verbatim>\<open>v > 0\<close>, and \<^verbatim>\<open>v.length > 0\<close> for a \<open>v\<close> that is not \<^verbatim>\<open>null\<close>.\<close>

fun js_gt0 :: "host \<Rightarrow> jsval \<Rightarrow> bool" where
  "js_gt0 h Undefined = False"
| "js_gt0 h Null = False"
| "js_gt0 h (Bool b) = b"
| "js_gt0 h (Num n) = (n > 0)"
| "js_gt0 h (Str s) = string_gt0 h s"
| "js_gt0 h (Arr xs) = string_gt0 h (ToString (Arr xs))"
| "js_gt0 h (Obj kvs) = False"

definition length_gt0 :: "host \<Rightarrow> jsval \<Rightarrow> bool" where
  "length_gt0 h v = js_gt0 h (propOf v (js ''length''))"

definition alert :: "jsstring \<Rightarrow> world \<Rightarrow> world" where
  "alert msg w = w\<lparr>alerts := alerts w @ [msg]\<rparr>"

definition appendLog :: "jsval \<Rightarrow> jsval \<Rightarrow> jsval \<Rightarrow> world \<Rightarrow> world" where
  "appendLog text type historyIndex w =
     (let entry =
        (if type = Str (js ''ai'')
         then Narrative \<lparr>shown_text = text, history_index = historyIndex, edited_class = False,
                          edited_mark = False, editing = None\<rparr>
         else Plain type text)
      in w\<lparr>gameLog := gameLog w @ [entry]\<rparr>)"

text \<open>
  The button made for one suggested choice: its text, the action its click submits, and the
  details shown after the text (joined with a comma, in parentheses).
\<close>

definition suggestion_button :: "jsval \<Rightarrow> suggestion_btn" where
  "suggestion_button choice =
     (if is_object choice \<and> truthy (propOf choice (js ''display_text'')) then
        \<lparr>displayText = propOf choice (js ''display_text''),
         actionCommand =
           (if propOf choice (js ''action_command'') \<noteq> Undefined
            then propOf choice (js ''action_command'') else propOf choice (js ''display_text'')),
         details =
           (if truthy (propOf choice (js ''details'')) \<and> isArray (propOf choice (js ''details''))
            then Some (elements (propOf choice (js ''details''))) else None),
         btn_disabled = False\<rparr>
      else
        \<lparr>displayText = choice, actionCommand = choice, details = None, btn_disabled = False\<rparr>)"

definition details_label :: "jsval list \<Rightarrow> jsstring" where
  "details_label ds =
     js ''('' @ join (js '', '') (map (\<lambda>x. case x of Undefined \<Rightarrow> [] | Null \<Rightarrow> [] | _ \<Rightarrow> ToString x) ds)
       @ js '')''"

definition renderGameSuggestions :: "host \<Rightarrow> jsval \<Rightarrow> world \<Rightarrow> unit outcome \<times> world" where
  "renderGameSuggestions h choices w =
     (let w = w\<lparr>gameSuggestions := []\<rparr> in
      if truthy choices \<and> length_gt0 h choices then
        (if isArray choices
         then (Return (), w\<lparr>gameSuggestions := map suggestion_button (elements choices)\<rparr>)
         else (Throw TypeError, w))
      else (Return (), w))"

definition renderPlayerStatus :: "host \<Rightarrow> jsval \<Rightarrow> world \<Rightarrow> unit outcome \<times> world" where
  "renderPlayerStatus h currentState w =
     (if sidebar_throws h currentState then (Throw TypeError, w) else (Return (), w))"

definition renderGameTurn :: "host \<Rightarrow> jsval \<Rightarrow> world \<Rightarrow> unit outcome \<times> world" where
  "renderGameTurn h data w =
     andThen (getp data (js ''description''), w) (\<lambda>description w.
       let w = (if truthy description then appendLog description (Str (js ''ai'')) (Num 0) w else w);
           w = (if truthy (propOf data (js ''player_message''))
                then appendLog (propOf data (js ''player_message'')) (Str (js ''message'')) Null w
                else w)
       in andThen
            (if truthy (propOf data (js ''current_state''))
             then renderPlayerStatus h (propOf data (js ''current_state'')) w else (Return (), w))
            (\<lambda>_ w. renderGameSuggestions h (propOf data (js ''suggested_choices'')) w))"

text \<open>\<^verbatim>\<open>try { ... } catch (error) { ... }\<close>\<close>

definition tryCatch ::
  "'a outcome \<times> world \<Rightarrow> (error \<Rightarrow> world \<Rightarrow> 'a outcome \<times> world) \<Rightarrow> 'a outcome \<times> world" where
  "tryCatch m handler = (case m of (Throw e, w) \<Rightarrow> handler e w | (r, w) \<Rightarrow> (r, w))"

text \<open>
  \<^verbatim>\<open>gameLog.removeChild(skeletonEntry)\<close>: the placeholder of a submission is the last
  entry of the log from its insertion to its removal (nothing is appended while the reply is
  awaited).
\<close>

definition skeleton_attached :: "world \<Rightarrow> bool" where
  "skeleton_attached w \<longleftrightarrow> gameLog w \<noteq> [] \<and> last (gameLog w) = Skeleton"

definition removeSkeleton :: "world \<Rightarrow> unit outcome \<times> world" where
  "removeSkeleton w =
     (if skeleton_attached w then (Return (), w\<lparr>gameLog := butlast (gameLog w)\<rparr>)
      else (Throw NotFoundError, w))"

definition action_endpoint :: "world \<Rightarrow> jsstring" where
  "action_endpoint w = js ''/sessions/'' @ ToString (currentSessionId w) @ js ''/action''"

definition action_options :: "jsval \<Rightarrow> options" where
  "action_options action =
     \<lparr>opt_method = Some (js ''POST''), opt_headers = [],
      opt_body = Some (Obj [(js ''action'', action)])\<rparr>"

definition no_reply_entry :: "jsval \<Rightarrow> world \<Rightarrow> bool outcome \<times> world" where
  "no_reply_entry errorData w =
     andThen (getp errorData (js ''error''), w) (\<lambda>err w.
       (Return False,
        appendLog
          (Str (msg_no_reply @ (if truthy err then ToString err else msg_please_retry) @ js '')''))
          (Str (js ''message'')) Null w))"

text \<open>
  \<^verbatim>\<open>handleActionSubmit\<close> (of its event argument only the default is prevented, so the
  model takes the action text alone), in the order of the source: the action that is submitted; what
  is done before the call (the action is recorded and shown, the controls are disabled, the
  placeholder is inserted); what is done with the reply; the \<^verbatim>\<open>catch\<close> block; the
  \<^verbatim>\<open>finally\<close> block.
\<close>

definition submitted_action :: "jsval \<Rightarrow> world \<Rightarrow> jsval" where
  "submitted_action actionText w =
     (if truthy actionText then actionText else Str (trim (actionInput w)))"

definition begin_submission :: "jsval \<Rightarrow> jsval \<Rightarrow> world \<Rightarrow> world" where
  "begin_submission actionText action w =
     (let w = w\<lparr>lastPlayerAction := action\<rparr>;
          w = (if \<not> truthy actionText then w\<lparr>actionInput := []\<rparr> else w);
          w = appendLog action (Str (js ''player'')) Null w;
          w = w\<lparr>retryAiBtn_shown := False, retryAiBtn_disabled := True,
                retryAiBtn_text := msg_retrying, actionInput_disabled := True,
                gameSuggestions := map (\<lambda>btn. btn\<lparr>btn_disabled := True\<rparr>) (gameSuggestions w)\<rparr>
      in w\<lparr>gameLog := gameLog w @ [Skeleton]\<rparr>)"

definition receive_turn :: "host \<Rightarrow> response option \<Rightarrow> world \<Rightarrow> bool outcome \<times> world" where
  "receive_turn h response w =
     andThen (removeSkeleton w) (\<lambda>_ w.
       case response of
         Some r \<Rightarrow>
           if ok r then
             andThen (response_json r, w) (\<lambda>data w.
             andThen (renderGameTurn h data w) (\<lambda>_ w. (Return True, w)))
           else
             andThen (tryCatch (response_json r, w) (\<lambda>e w. (Return (Obj []), w))) no_reply_entry
       | None \<Rightarrow> no_reply_entry (Obj [(js ''error'', Str msg_unknown_error)]) w)"

definition connection_lost :: "world \<Rightarrow> bool outcome \<times> world" where
  "connection_lost w =
     (Return False,
      appendLog (Str msg_connection_lost) (Str (js ''message'')) Null
        (if skeleton_attached w then w\<lparr>gameLog := butlast (gameLog w)\<rparr> else w))"

definition end_submission :: "jsstring \<Rightarrow> bool \<Rightarrow> world \<Rightarrow> world" where
  "end_submission originalRetryBtnText requestSucceeded w =
     w\<lparr>retryAiBtn_shown := True, actionInput_disabled := False, retryAiBtn_disabled := False,
       retryAiBtn_text := originalRetryBtnText,
       gameSuggestions :=
         (if \<not> requestSucceeded
          then map (\<lambda>btn. btn\<lparr>btn_disabled := False\<rparr>) (gameSuggestions w)
          else gameSuggestions w)\<rparr>"

definition handleActionSubmit :: "host \<Rightarrow> jsval \<Rightarrow> world \<Rightarrow> unit outcome \<times> world" where
  "handleActionSubmit h actionText w =
     (let action = submitted_action actionText w in
      if \<not> truthy action then (Return (), w)
      else
        let originalRetryBtnText = retryAiBtn_text w;
            w = begin_submission actionText action w
        in
          case
            tryCatch
              (andThen (fetchWithAuth (action_endpoint w) (action_options action) w) (receive_turn h))
              (\<lambda>error. connection_lost)
          of
            (Return requestSucceeded, w) \<Rightarrow>
              (Return (), end_submission originalRetryBtnText requestSucceeded w)
          | (Throw e, w) \<Rightarrow> (Throw e, end_submission originalRetryBtnText False w)
          | (Pending, w) \<Rightarrow> (Pending, w))"

text \<open>The click on the retry button of the game view, and on a suggestion.\<close>

definition click_retry :: "host \<Rightarrow> world \<Rightarrow> unit outcome \<times> world" where
  "click_retry h w =
     (if truthy (lastPlayerAction w) then handleActionSubmit h (lastPlayerAction w) w
      else (Return (), alert msg_no_last_action w))"


section \<open>Loading a session\<close>

text \<open>
  \<^verbatim>\<open>[...v]\<close>: the elements of an array, the code points of a string; an object is not
  iterable.
\<close>

fun code_points :: "jsstring \<Rightarrow> jsstring list" where
  "code_points [] = []"
| "code_points [c] = [[c]]"
| "code_points (c # d # cs) =
     (if 0xD800 \<le> c \<and> c \<le> 0xDBFF \<and> 0xDC00 \<le> d \<and> d \<le> 0xDFFF
      then [c, d] # code_points cs else [c] # code_points (d # cs))"

fun spread :: "jsval \<Rightarrow> jsval list outcome" where
  "spread (Arr xs) = Return xs"
| "spread (Str s) = Return (map Str (code_points s))"
| "spread v = Throw TypeError"

fun the_number :: "jsval \<Rightarrow> int" where
  "the_number (Num n) = n"
| "the_number v = 0"

text \<open>The body of the loop that restores the history, and the loop.\<close>

definition restore_entry :: "jsval \<Rightarrow> jsval \<Rightarrow> nat \<Rightarrow> world \<Rightarrow> unit outcome \<times> world" where
  "restore_entry recent_history entry displayIndex w =
     (let originalIndex = the_number (propOf recent_history (js ''length'')) - 1 - int displayIndex in
      andThen (getp entry (js ''role''), w) (\<lambda>role w.
        let historyIndex = (if role = Str (js ''assistant'') then Num originalIndex else Null)
        in (Return (), appendLog (propOf entry (js ''content'')) role historyIndex w)))"

fun restore_history :: "jsval \<Rightarrow> jsval list \<Rightarrow> nat \<Rightarrow> world \<Rightarrow> unit outcome \<times> world" where
  "restore_history recent_history [] displayIndex w = (Return (), w)"
| "restore_history recent_history (entry # entries) displayIndex w =
     andThen (restore_entry recent_history entry displayIndex w)
       (\<lambda>_ w. restore_history recent_history entries (Suc displayIndex) w)"

definition startGame :: "host \<Rightarrow> jsval \<Rightarrow> world \<Rightarrow> unit outcome \<times> world" where
  "startGame h sessionData w =
     andThen (getp sessionData (js ''current_state''), w) (\<lambda>currentState w.
       if \<not> truthy currentState then (Return (), handleApiError msg_corrupt None False w)
       else
         let w = w\<lparr>currentSessionId := propOf sessionData (js ''session_id''),
                   currentWorldName := propOf sessionData (js ''world_name'')\<rparr>;
             w = w\<lparr>gameWorldName := currentWorldName w, gameLog := [], actionInput := []\<rparr>
         in
           andThen (renderPlayerStatus h currentState w) (\<lambda>_ w.
             let w = showView (js ''game-view'') w;
                 recent_history = propOf currentState (js ''recent_history'')
             in
               if truthy recent_history \<and> length_gt0 h recent_history then
                 andThen (spread recent_history, w) (\<lambda>copy w.
                 andThen (restore_history recent_history (rev copy) 0 w) (\<lambda>_ w.
                   let lastAiResponse =
                         (if truthy (propOf currentState (js ''last_ai_response''))
                          then propOf currentState (js ''last_ai_response'') else Obj [])
                   in renderGameSuggestions h (propOf lastAiResponse (js ''suggested_choices'')) w))
               else
                 let w = (if truthy (propOf currentState (js ''current_location''))
                          then appendLog (propOf currentState (js ''current_location''))
                                 (Str (js ''ai'')) Null w
                          else w)
                 in (Return (), snd (handleActionSubmit h (Str msg_look_around) w))))"

section \<open>Editing the narrative\<close>

text \<open>
  An entry of the log is designated by its position (entries are only ever appended, and the
  placeholder is removed from the end, so the position of an entry does not change).
  \<^verbatim>\<open>editNarrative\<close> throws on a text that is not a string (\<^verbatim>\<open>originalText.split\<close>),
  before it touches the entry.
\<close>

text \<open>
  The value read from a text area has its line breaks normalized: CR LF and a lone CR are
  read as LF.
\<close>

fun normalize_newlines :: "jsstring \<Rightarrow> jsstring" where
  "normalize_newlines [] = []"
| "normalize_newlines [c] = (if c = 13 then [10] else [c])"
| "normalize_newlines (c # d # cs) =
     (if c = 13 \<and> d = 10 then 10 # normalize_newlines cs
      else if c = 13 then 10 # normalize_newlines (d # cs)
      else c # normalize_newlines (d # cs))"

definition editNarrative :: "nat \<Rightarrow> jsval \<Rightarrow> jsval \<Rightarrow> world \<Rightarrow> unit outcome \<times> world" where
  "editNarrative entryElement originalText historyIndex w =
     (case originalText of
        Str s \<Rightarrow>
          (if entryElement < length (gameLog w) then
             (case gameLog w ! entryElement of
                Narrative n \<Rightarrow>
                  (Return (),
                   w\<lparr>gameLog := (gameLog w)[entryElement :=
                       Narrative (n\<lparr>editing := Some (normalize_newlines s)\<rparr>)]\<rparr>)
              | _ \<Rightarrow> (Return (), w))
           else (Return (), w))
      | _ \<Rightarrow> (Throw TypeError, w))"

definition update_endpoint :: "world \<Rightarrow> jsstring" where
  "update_endpoint w = js ''/sessions/'' @ ToString (currentSessionId w) @ js ''/update_narrative''"

definition update_options :: "jsstring \<Rightarrow> jsval \<Rightarrow> options" where
  "update_options newText historyIndex =
     \<lparr>opt_method = Some (js ''POST''),
      opt_headers = [(js ''Content-Type'', js ''application/json'')],
      opt_body = Some (Obj [(js ''narrative'', Str newText), (js ''history_index'', historyIndex)])\<rparr>"

text \<open>
  \<^verbatim>\<open>saveNarrativeEdit\<close>; the first part gives whether the edit goes on to be applied
  locally.
\<close>

definition sync_narrative :: "jsstring \<Rightarrow> jsval \<Rightarrow> world \<Rightarrow> bool outcome \<times> world" where
  "sync_narrative newText historyIndex w =
     (if historyIndex \<noteq> Null \<and> historyIndex \<noteq> Undefined then
        tryCatch
          (andThen (fetchWithAuth (update_endpoint w) (update_options newText historyIndex) w)
             (\<lambda>response w.
                case response of
                  None \<Rightarrow> (Throw TypeError, w)
                | Some r \<Rightarrow>
                    if \<not> ok r then
                      andThen (response_json r, w) (\<lambda>errorData w.
                      andThen (getp errorData (js ''error''), w) (\<lambda>err w.
                        (Return False,
                         alert (msg_update_failed @ (if truthy err then ToString err else msg_unknown_error)) w)))
                    else (Return True, w)))
          (\<lambda>error w. (Return True, alert msg_local_only w))
      else (Return True, w))"

definition saveNarrativeEdit ::
  "nat \<Rightarrow> jsstring \<Rightarrow> jsval \<Rightarrow> jsval \<Rightarrow> world \<Rightarrow> unit outcome \<times> world" where
  "saveNarrativeEdit entryElement newText originalText historyIndex w =
     (if trim newText = [] then (Return (), alert msg_empty_narrative w)
      else
        andThen (sync_narrative newText historyIndex w) (\<lambda>synced w.
          if \<not> synced \<or> \<not> entryElement < length (gameLog w) then (Return (), w)
          else
            (case gameLog w ! entryElement of
               Narrative n \<Rightarrow>
                 (Return (),
                  w\<lparr>gameLog := (gameLog w)[entryElement :=
                      Narrative \<lparr>shown_text = Str newText, history_index = historyIndex,
                        edited_class = (edited_class n \<or> Str newText \<noteq> originalText),
                        edited_mark = (Str newText \<noteq> originalText), editing = None\<rparr>]\<rparr>)
             | _ \<Rightarrow> (Return (), w))))"

text \<open>
  The clicks on the buttons of a narrator entry: the handlers run with the text and the
  history index they captured when the entry was made (or last saved). \<open>type_narrative\<close>
  is the user changing the text area.
\<close>

definition click_edit :: "nat \<Rightarrow> world \<Rightarrow> unit outcome \<times> world" where
  "click_edit k w =
     (if k < length (gameLog w) then
        (case gameLog w ! k of
           Narrative n \<Rightarrow>
             if editing n = None then editNarrative k (shown_text n) (history_index n) w
             else (Return (), w)
         | _ \<Rightarrow> (Return (), w))
      else (Return (), w))"

definition type_narrative :: "nat \<Rightarrow> jsstring \<Rightarrow> world \<Rightarrow> world" where
  "type_narrative k newText w =
     (if k < length (gameLog w) then
        (case gameLog w ! k of
           Narrative n \<Rightarrow>
             if editing n \<noteq> None
             then w\<lparr>gameLog := (gameLog w)[k :=
                    Narrative (n\<lparr>editing := Some (normalize_newlines newText)\<rparr>)]\<rparr>
             else w
         | _ \<Rightarrow> w)
      else w)"

definition click_save :: "nat \<Rightarrow> world \<Rightarrow> unit outcome \<times> world" where
  "click_save k w =
     (if k < length (gameLog w) then
        (case gameLog w ! k of
           Narrative n \<Rightarrow>
             (case editing n of
                Some newText \<Rightarrow> saveNarrativeEdit k newText (shown_text n) (history_index n) w
              | None \<Rightarrow> (Return (), w))
         | _ \<Rightarrow> (Return (), w))
      else (Return (), w))"

section \<open>The history on the server\<close>

text \<open>
  Modelled from the spec: the history store of the server (its code is not part of the
  client sources). The log is kept newest first; a new narrator entry is inserted at index 0
  and shifts every older entry by one; an edit by index replaces the text at that index.
\<close>

definition appendAtHead :: "'a \<Rightarrow> 'a list \<Rightarrow> 'a list" where
  "appendAtHead entry history = entry # history"

definition editByIndex :: "nat \<Rightarrow> 'a \<Rightarrow> 'a list \<Rightarrow> 'a list option" where
  "editByIndex i newContent history =
     (if i < length history then Some (history[i := newContent]) else None)"

section \<open>Counting the calls of a run\<close>

text \<open>What the pipeline, the refresh and logout never touch: the game on screen.\<close>

definition same_game :: "world \<Rightarrow> world \<Rightarrow> bool" where
  "same_game w w' \<longleftrightarrow>
     lastPlayerAction w' = lastPlayerAction w \<and> gameWorldName w' = gameWorldName w
     \<and> gameLog w' = gameLog w \<and> gameSuggestions w' = gameSuggestions w
     \<and> actionInput w' = actionInput w \<and> actionInput_disabled w' = actionInput_disabled w
     \<and> retryAiBtn_shown w' = retryAiBtn_shown w \<and> retryAiBtn_disabled w' = retryAiBtn_disabled w
     \<and> retryAiBtn_text w' = retryAiBtn_text w \<and> alerts w' = alerts w"


text \<open>
  A call made by the pipeline carries the \<^verbatim>\<open>credentials\<close> header that
  \<^verbatim>\<open>fetchWithAuth\<close> always sets; the call of \<^verbatim>\<open>refreshToken\<close> has the content type
  as its only header.
\<close>

definition is_pipeline_call :: "jsstring \<Rightarrow> request \<Rightarrow> bool" where
  "is_pipeline_call endpoint rq \<longleftrightarrow>
     url rq = API_URL @ endpoint \<and> js ''credentials'' \<in> set (map fst (headers rq))"

definition is_refresh_call :: "request \<Rightarrow> bool" where
  "is_refresh_call rq \<longleftrightarrow>
     url rq = js ''/api/refresh'' \<and> map fst (headers rq) = [js ''Content-Type'']"

definition pipeline_calls :: "jsstring \<Rightarrow> request list \<Rightarrow> nat" where
  "pipeline_calls endpoint net = length (filter (is_pipeline_call endpoint) net)"

definition refresh_calls :: "request list \<Rightarrow> nat" where
  "refresh_calls net = length (filter is_refresh_call net)"

text \<open>The calls issued, and the replies consumed, between two states of the page.\<close>

definition issued :: "world \<Rightarrow> world \<Rightarrow> request list" where
  "issued w w' = drop (length (network w)) (network w')"

definition answered :: "world \<Rightarrow> world \<Rightarrow> net_reply list" where
  "answered w w' = take (length (replies w) - length (replies w')) (replies w)"

fun expired_reply :: "net_reply \<Rightarrow> bool" where
  "expired_reply NetFail = False"
| "expired_reply (Reply r) =
     (status r = 401 \<and> (case payload r of None \<Rightarrow> False | Some d \<Rightarrow> token_expired d))"

text \<open>
  \<^verbatim>\<open>!refreshToken\<close> in \<^verbatim>\<open>refreshToken\<close>: a refresh token is stored and is not the
  empty string.
\<close>

definition has_refresh_token :: "world \<Rightarrow> bool" where
  "has_refresh_token w \<longleftrightarrow>
     (case localStorage w (js ''refresh_token'') of None \<Rightarrow> False | Some tok \<Rightarrow> tok \<noteq> [])"

text \<open>
  The replies to a refresh call, by what they make of the refresh: accepted (a success with a
  JSON body, so that \<^verbatim>\<open>refreshToken\<close> returns \<^verbatim>\<open>true\<close>), declined (a failure with a
  JSON body: it returns \<^verbatim>\<open>false\<close>), or broken (a transport failure, a body that is not
  JSON, the JSON \<^verbatim>\<open>null\<close>: it throws).
\<close>

fun json_body :: "response \<Rightarrow> bool" where
  "json_body r = (case payload r of None \<Rightarrow> False | Some d \<Rightarrow> d \<noteq> Null \<and> d \<noteq> Undefined)"

fun refresh_accepted :: "net_reply \<Rightarrow> bool" where
  "refresh_accepted NetFail = False"
| "refresh_accepted (Reply r) = (ok r \<and> json_body r)"

fun refresh_declined :: "net_reply \<Rightarrow> bool" where
  "refresh_declined NetFail = False"
| "refresh_declined (Reply r) = (\<not> ok r \<and> json_body r)"

fun refresh_broken :: "net_reply \<Rightarrow> bool" where
  "refresh_broken NetFail = True"
| "refresh_broken (Reply r) = (\<not> json_body r)"

text \<open>
  The calls of a run, each with the reply that answered it (a call still pending has none),
  and among them: the calls of the endpoint answered 401 \<^verbatim>\<open>token_expired\<close>, and the
  refresh calls that were accepted.
\<close>

definition exchanges :: "world \<Rightarrow> world \<Rightarrow> (request \<times> net_reply) list" where
  "exchanges w w' = zip (issued w w') (answered w w')"

definition expired_answers :: "jsstring \<Rightarrow> (request \<times> net_reply) list \<Rightarrow> nat" where
  "expired_answers endpoint ex =
     length (filter (\<lambda>(rq, rep). is_pipeline_call endpoint rq \<and> expired_reply rep) ex)"

definition accepted_refreshes :: "(request \<times> net_reply) list \<Rightarrow> nat" where
  "accepted_refreshes ex =
     length (filter (\<lambda>(rq, rep). is_refresh_call rq \<and> refresh_accepted rep) ex)"

section \<open>The normalization of a choice, in the words of the specification\<close>

text \<open>
  The specification gives the action command of a structured choice as
  \<^verbatim>\<open>actionCommand ?? displayText\<close>: the display text stands in when the action command
  is \<^verbatim>\<open>undefined\<close> or \<^verbatim>\<open>null\<close>.
\<close>

definition nullish_coalesce :: "jsval \<Rightarrow> jsval \<Rightarrow> jsval" where
  "nullish_coalesce a b = (if a = Undefined \<or> a = Null then b else a)"

section \<open>Sample data\<close>

definition no_options :: options where
  "no_options = \<lparr>opt_method = None, opt_headers = [], opt_body = None\<rparr>"

definition error_reply :: "nat \<Rightarrow> string \<Rightarrow> net_reply" where
  "error_reply code kind = Reply \<lparr>status = code, payload = Some (Obj [(js ''error'', Str (js kind))])\<rparr>"

definition token_reply :: "string \<Rightarrow> net_reply" where
  "token_reply t = Reply \<lparr>status = 200, payload = Some (Obj [(js ''access_token'', Str (js t))])\<rparr>"

definition empty_reply :: net_reply where
  "empty_reply = Reply \<lparr>status = 200, payload = Some (Obj [])\<rparr>"

text \<open>A reply whose body is not JSON (an error page of a gateway, say).\<close>

definition html_reply :: "nat \<Rightarrow> net_reply" where
  "html_reply code = Reply \<lparr>status = code, payload = None\<rparr>"

definition expired :: net_reply where
  "expired = error_reply 401 ''token_expired''"

definition logged_in :: "jsstring \<rightharpoonup> jsstring" where
  "logged_in = [js ''access_token'' \<mapsto> js ''a0'', js ''refresh_token'' \<mapsto> js ''r0'']"

text \<open>A player in a game: logged in, session 7 of the world Test on screen.\<close>

definition playing :: "net_reply list \<Rightarrow> world" where
  "playing rs =
     (page logged_in rs)\<lparr>currentSessionId := Num 7, currentWorldName := Str (js ''Test''),
        gameWorldName := Str (js ''Test''), view := js ''game-view''\<rparr>"

definition plain_host :: host where
  "plain_host = \<lparr>string_gt0 = (\<lambda>s. False), sidebar_throws = (\<lambda>v. False)\<rparr>"

definition turn_reply :: "string \<Rightarrow> net_reply" where
  "turn_reply description =
     Reply \<lparr>status = 200,
            payload = Some (Obj [(js ''description'', Str (js description)),
                                 (js ''suggested_choices'', Arr [Str (js ''look around'')])])\<rparr>"

text \<open>
  A run of the pipeline in which the access token expires twice: the first call and its replay
  are both answered 401 \<^verbatim>\<open>token_expired\<close>, and both refreshes succeed.
\<close>

definition expiring_twice :: "response option outcome \<times> world" where
  "expiring_twice =
     fetchWithAuth (js ''/sessions'') no_options
       (playing [expired, token_reply ''a1'', expired, token_reply ''a2'', empty_reply])"

text \<open>A player who has typed an action; the reply to the first submission is an error.\<close>

definition typed_go :: world where
  "typed_go = (playing [error_reply 500 ''boom'', turn_reply ''A''])\<lparr>actionInput := js ''go north''\<rparr>"


text \<open>
  Two turns played one after the other, and then the narrative of the first turn edited and
  saved.
\<close>

definition two_turns :: world where
  "two_turns =
     snd (handleActionSubmit plain_host (Str (js ''on''))
       (snd (handleActionSubmit plain_host (Str (js ''go''))
         (playing [turn_reply ''A'', turn_reply ''B'', empty_reply]))))"

definition first_edited :: world where
  "first_edited = snd (click_save 1 (type_narrative 1 (js ''A2'') (snd (click_edit 1 two_turns))))"

section \<open>Facts about the pipeline\<close>

lemma getp_Return: "d \<noteq> Null \<Longrightarrow> d \<noteq> Undefined \<Longrightarrow> \<exists>v. getp d k = Return v"
  by (cases d) (simp_all split: option.splits)

lemma map_fst_set_header:
  "map fst (set_header k v hs) = (if k \<in> set (map fst hs) then map fst hs else map fst hs @ [k])"
  by (induction hs) fastforce+

lemma set_header_keys: "fst ` set (set_header k v hs) = insert k (fst ` set hs)"
proof -
  have "set (map fst (set_header k v hs)) = insert k (set (map fst hs))"
    unfolding map_fst_set_header by auto
  then show ?thesis by simp
qed

lemma foldl_set_header_keys:
  "fst ` set hs \<subseteq> fst ` set (foldl (\<lambda>h (k, v). set_header k v h) hs kvs)"
proof (induction kvs arbitrary: hs)
  case Nil
  show ?case by simp
next
  case (Cons kv kvs)
  obtain k v where kv: "kv = (k, v)" by (cases kv)
  have "fst ` set hs \<subseteq> fst ` set (set_header k v hs)"
    by (auto simp: set_header_keys)
  also have "\<dots> \<subseteq> fst ` set (foldl (\<lambda>h (k, v). set_header k v h) (set_header k v hs) kvs)"
    by (rule Cons.IH)
  finally show ?case by (simp add: kv)
qed

lemma pipeline_request_is_pipeline_call:
  "is_pipeline_call endpoint (pipeline_request endpoint opts w)"
proof -
  let ?hs = "foldl (\<lambda>h (k, v). set_header k v h)
                 [(js ''Content-Type'', js ''application/json''), (js ''credentials'', js ''include'')]
                 (opt_headers opts)"
  have "js ''credentials'' \<in> fst ` set ?hs"
    using foldl_set_header_keys [of "[(js ''Content-Type'', js ''application/json''), (js ''credentials'', js ''include'')]" "opt_headers opts"]
    by auto
  then show ?thesis
    by (auto simp: is_pipeline_call_def pipeline_request_def Let_def set_header_keys)
qed

lemma pipeline_call_not_refresh: "is_pipeline_call endpoint rq \<Longrightarrow> \<not> is_refresh_call rq"
  by (auto simp: is_pipeline_call_def is_refresh_call_def js_def)

lemma refresh_request_is_refresh_call: "is_refresh_call (refresh_request tok)"
  by (simp add: is_refresh_call_def refresh_request_def)

lemma refresh_request_not_pipeline: "\<not> is_pipeline_call endpoint (refresh_request tok)"
  using pipeline_call_not_refresh refresh_request_is_refresh_call by blast

lemma fetch_Return:
  "fetch rq w = (Return r, w1) \<Longrightarrow>
     network w1 = network w @ [rq] \<and> replies w = Reply r # replies w1"
  by (auto simp: fetch_def Let_def split: list.splits net_reply.splits)

lemma fetch_other:
  "fetch rq w = (res, w1) \<Longrightarrow>
     network w1 = network w @ [rq] \<and> (\<exists>ans. length ans \<le> 1 \<and> replies w = ans @ replies w1)"
  by (auto simp: fetch_def Let_def split: list.splits net_reply.splits)

lemma refreshToken_trace:
  "refreshToken w = (res, w') \<Longrightarrow>
     (network w' = network w \<and> replies w' = replies w \<and> res = Return False)
     \<or> (\<exists>tok ans. network w' = network w @ [refresh_request tok] \<and> replies w = ans @ replies w')"
  by (auto simp: refreshToken_def andThen_def fetch_def Let_def response_json_def
      split: option.splits if_splits list.splits net_reply.splits outcome.splits)

lemma handleLogout_net [simp]:
  "network (handleLogout w) = network w" "replies (handleLogout w) = replies w"
  by (simp_all add: handleLogout_def showView_def)

lemma handleApiError_net [simp]:
  "network (handleApiError m c f w) = network w" "replies (handleApiError m c f w) = replies w"
  by (simp_all add: handleApiError_def)

lemma fetchWithAuth_trace:
  "fetchWithAuth endpoint opts w = (res, w') \<Longrightarrow>
     \<exists>new ans. network w' = network w @ new \<and> replies w = ans @ replies w'
       \<and> pipeline_calls endpoint new \<le> 1 + refresh_calls new
       \<and> refresh_calls new \<le> length (filter expired_reply ans)
       \<and> pipeline_calls endpoint new + refresh_calls new = length new"
proof (induction endpoint opts w arbitrary: res w' rule: fetchWithAuth.induct)
  case (1 endpoint opts w)
  let ?rq = "pipeline_request endpoint opts w"
  obtain r0 w1 where f: "fetch ?rq w = (r0, w1)"
    by (cases "fetch ?rq w")
  from fetch_other [OF f] obtain ans0 where
    n1: "network w1 = network w @ [?rq]" and a1: "replies w = ans0 @ replies w1"
    by blast
  have pc: "is_pipeline_call endpoint ?rq" "\<not> is_refresh_call ?rq"
    using pipeline_request_is_pipeline_call pipeline_call_not_refresh by blast+
  show ?case
  proof (cases "\<exists>response d. r0 = Return response \<and> status response = 401
                  \<and> payload response = Some d \<and> token_expired d")
    case False
    have "network w' = network w1 \<and> replies w' = replies w1"
      using "1.prems" f False
      by (auto simp: fetchWithAuth.simps [of endpoint opts w] andThen_def response_json_def
          split: outcome.splits if_splits option.splits)
    with n1 a1 pc show ?thesis
      by (intro exI [of _ "[?rq]"] exI [of _ ans0])
        (simp add: pipeline_calls_def refresh_calls_def)
  next
    case True
    then obtain response d where
      r0: "r0 = Return response" and st: "status response = 401"
      and pl: "payload response = Some d" and ex: "token_expired d"
      by blast
    have a1': "replies w = Reply response # replies w1"
      using fetch_Return f r0 by blast
    obtain r1 w2 where rt: "refreshToken w1 = (r1, w2)"
      by (cases "refreshToken w1")
    have unfold: "fetchWithAuth endpoint opts w =
        (case r1 of Return b \<Rightarrow> if b then fetchWithAuth endpoint opts w2
                                 else (Return None, handleLogout w2)
         | Throw e \<Rightarrow> (Throw e, w2) | Pending \<Rightarrow> (Pending, w2))"
      using f r0 st pl ex rt
      by (simp add: fetchWithAuth.simps [of endpoint opts w] andThen_def response_json_def
          split: outcome.splits)
    have er: "expired_reply (Reply response)"
      using st pl ex by simp
    show ?thesis
    proof (cases "r1 = Return True")
      case True
      with unfold "1.prems" have rec: "fetchWithAuth endpoint opts w2 = (res, w')"
        by simp
      from "1.IH" [OF f [unfolded r0] st _ ex rt [unfolded True] _ rec]
      obtain new2 ans2 where
        n2: "network w' = network w2 @ new2" and a2: "replies w2 = ans2 @ replies w'"
        and c1: "pipeline_calls endpoint new2 \<le> 1 + refresh_calls new2"
        and c2: "refresh_calls new2 \<le> length (filter expired_reply ans2)"
        and c3: "pipeline_calls endpoint new2 + refresh_calls new2 = length new2"
        by (auto simp: response_json_def pl)
      from refreshToken_trace [OF rt] True obtain tok ans1 where
        nr: "network w2 = network w1 @ [refresh_request tok]" and ar: "replies w1 = ans1 @ replies w2"
        by auto
      show ?thesis
        using n1 nr n2 a1' ar a2 c1 c2 c3 pc er
          refresh_request_is_refresh_call [of tok] refresh_request_not_pipeline [of endpoint tok]
        by (intro exI [of _ "?rq # refresh_request tok # new2"]
            exI [of _ "Reply response # ans1 @ ans2"])
          (simp add: pipeline_calls_def refresh_calls_def)
    next
      case False
      with unfold "1.prems" have same: "network w' = network w2 \<and> replies w' = replies w2"
        by (auto split: outcome.splits if_splits)
      from refreshToken_trace [OF rt] show ?thesis
      proof
        assume "network w2 = network w1 \<and> replies w2 = replies w1 \<and> r1 = Return False"
        with same n1 a1' pc show ?thesis
          by (intro exI [of _ "[?rq]"] exI [of _ "[Reply response]"])
            (simp add: pipeline_calls_def refresh_calls_def)
      next
        assume "\<exists>tok ans. network w2 = network w1 @ [refresh_request tok] \<and> replies w1 = ans @ replies w2"
        then obtain tok ans1 where
          nr: "network w2 = network w1 @ [refresh_request tok]" and ar: "replies w1 = ans1 @ replies w2"
          by blast
        show ?thesis
          using same n1 nr a1' ar pc er
            refresh_request_is_refresh_call [of tok] refresh_request_not_pipeline [of endpoint tok]
          by (intro exI [of _ "[?rq, refresh_request tok]"]
              exI [of _ "Reply response # ans1"])
            (simp add: pipeline_calls_def refresh_calls_def)
      qed
    qed
  qed
qed

section \<open>The refresh, reply by reply\<close>

lemma js_keys_differ [simp]:
  "js ''access_token'' \<noteq> js ''refresh_token''" "js ''refresh_token'' \<noteq> js ''access_token''"
  by (simp_all add: js_def)

lemma getp_Throw: "d = Null \<or> d = Undefined \<Longrightarrow> getp d k = Throw TypeError"
  by auto

lemma fetch_cases:
  "fetch rq w = (r0, w1) \<Longrightarrow>
     network w1 = network w @ [rq] \<and> localStorage w1 = localStorage w
     \<and> accessToken w1 = accessToken w \<and> view w1 = view w
     \<and> ((replies w = [] \<and> replies w1 = [] \<and> r0 = Pending)
        \<or> (replies w = NetFail # replies w1 \<and> r0 = Throw NetworkError)
        \<or> (\<exists>r. replies w = Reply r # replies w1 \<and> r0 = Return r))"
  by (auto simp: fetch_def Let_def split: list.splits net_reply.splits)

lemma refreshToken_no_token:
  "\<not> has_refresh_token w \<Longrightarrow> refreshToken w = (Return False, w)"
  by (auto simp: has_refresh_token_def refreshToken_def split: option.splits)

lemma refreshToken_reply:
  assumes "has_refresh_token w" and "replies w = rep # rs"
  shows "\<exists>tok. localStorage w (js ''refresh_token'') = Some tok \<and> tok \<noteq> []
     \<and> network (snd (refreshToken w)) = network w @ [refresh_request tok]
     \<and> replies (snd (refreshToken w)) = rs
     \<and> view (snd (refreshToken w)) = view w
     \<and> has_refresh_token (snd (refreshToken w))
     \<and> (refresh_accepted rep \<longrightarrow> fst (refreshToken w) = Return True)
     \<and> (refresh_declined rep \<longrightarrow> fst (refreshToken w) = Return False)
     \<and> (refresh_broken rep \<longrightarrow> (\<exists>e. fst (refreshToken w) = Throw e))
     \<and> (\<not> refresh_accepted rep \<longrightarrow>
           accessToken (snd (refreshToken w)) = accessToken w
           \<and> localStorage (snd (refreshToken w)) = localStorage w)"
proof -
  from assms(1) obtain tok where t: "localStorage w (js ''refresh_token'') = Some tok" "tok \<noteq> []"
    by (auto simp: has_refresh_token_def split: option.splits)
  show ?thesis
  proof (cases rep)
    case NetFail
    with t assms(2) show ?thesis
      by (simp add: refreshToken_def andThen_def fetch_def Let_def has_refresh_token_def)
  next
    case (Reply r)
    show ?thesis
    proof (cases "payload r")
      case None
      with t assms(2) Reply show ?thesis
        by (simp add: refreshToken_def andThen_def fetch_def Let_def has_refresh_token_def response_json_def)
    next
      case (Some d)
      show ?thesis
      proof (cases "d = Null \<or> d = Undefined")
        case True
        then have "getp d (js ''access_token'') = Throw TypeError" "getp d (js ''error'') = Throw TypeError"
          by auto
        with t assms(2) Reply Some True show ?thesis
          by (auto simp: refreshToken_def andThen_def fetch_def Let_def has_refresh_token_def response_json_def)
      next
        case False
        then obtain a e where "getp d (js ''access_token'') = Return a" "getp d (js ''error'') = Return e"
          using getp_Return by (metis (full_types))
        with t assms(2) Reply Some False show ?thesis
          by (auto simp: refreshToken_def andThen_def fetch_def Let_def has_refresh_token_def response_json_def)
      qed
    qed
  qed
qed

lemma refreshToken_pending:
  assumes "has_refresh_token w" and "replies w = []"
  shows "\<exists>tok. network (snd (refreshToken w)) = network w @ [refresh_request tok]
     \<and> replies (snd (refreshToken w)) = [] \<and> fst (refreshToken w) = Pending"
  using assms
  by (auto simp: has_refresh_token_def refreshToken_def andThen_def fetch_def Let_def split: option.splits)

section \<open>The calls of a run, counted\<close>

lemma count_simps [simp]:
  "expired_answers ep [] = 0" "accepted_refreshes [] = 0"
  "expired_answers ep ((rq, rep) # ex) =
     (if is_pipeline_call ep rq \<and> expired_reply rep then 1 else 0) + expired_answers ep ex"
  "accepted_refreshes ((rq, rep) # ex) =
     (if is_refresh_call rq \<and> refresh_accepted rep then 1 else 0) + accepted_refreshes ex"
  by (simp_all add: expired_answers_def accepted_refreshes_def)

lemma call_count_simps [simp]:
  "pipeline_calls ep [] = 0" "refresh_calls [] = 0"
  "pipeline_calls ep (rq # net) = (if is_pipeline_call ep rq then 1 else 0) + pipeline_calls ep net"
  "refresh_calls (rq # net) = (if is_refresh_call rq then 1 else 0) + refresh_calls net"
  by (simp_all add: pipeline_calls_def refresh_calls_def)

lemma has_refresh_token_fetch:
  "fetch rq w = (r0, w1) \<Longrightarrow> has_refresh_token w1 = has_refresh_token w"
  using fetch_cases [of rq w r0 w1] by (simp add: has_refresh_token_def)

lemma fetchWithAuth_exact:
  "fetchWithAuth endpoint opts w = (res, w') \<Longrightarrow>
     \<exists>new ans. network w' = network w @ new \<and> replies w = ans @ replies w'
       \<and> pipeline_calls endpoint new = 1 + accepted_refreshes (zip new ans)
       \<and> refresh_calls new = (if has_refresh_token w then expired_answers endpoint (zip new ans) else 0)"
proof (induction endpoint opts w arbitrary: res w' rule: fetchWithAuth.induct)
  case (1 endpoint opts w)
  let ?rq = "pipeline_request endpoint opts w"
  obtain r0 w1 where f: "fetch ?rq w = (r0, w1)"
    by (cases "fetch ?rq w")
  note fc = fetch_cases [OF f]
  have n1: "network w1 = network w @ [?rq]"
    using fc by simp
  have h1: "has_refresh_token w1 = has_refresh_token w"
    using has_refresh_token_fetch [OF f] .
  have pc: "is_pipeline_call endpoint ?rq" "\<not> is_refresh_call ?rq"
    using pipeline_request_is_pipeline_call pipeline_call_not_refresh by blast+
  show ?case
  proof (cases "\<exists>response d. r0 = Return response \<and> status response = 401
                  \<and> payload response = Some d \<and> token_expired d")
    case False
    have same: "network w' = network w1 \<and> replies w' = replies w1"
      using "1.prems" f False
      by (auto simp: fetchWithAuth.simps [of endpoint opts w] andThen_def response_json_def
          split: outcome.splits if_splits option.splits)
    from fc consider
      (pending) "replies w = []" "replies w1 = []"
      | (netfail) "replies w = NetFail # replies w1"
      | (reply) r where "replies w = Reply r # replies w1" "r0 = Return r"
      by blast
    then show ?thesis
    proof cases
      case pending
      with same n1 pc show ?thesis
        by (intro exI [of _ "[?rq]"] exI [of _ "[]"]) (simp del: expired_reply.simps refresh_accepted.simps)
    next
      case netfail
      with same n1 pc show ?thesis
        by (intro exI [of _ "[?rq]"] exI [of _ "[NetFail]"]) simp
    next
      case reply
      with False have "\<not> expired_reply (Reply r)"
        by (auto split: option.splits)
      with reply same n1 pc show ?thesis
        by (intro exI [of _ "[?rq]"] exI [of _ "[Reply r]"]) (simp del: expired_reply.simps refresh_accepted.simps)
    qed
  next
    case True
    then obtain response d where
      r0: "r0 = Return response" and st: "status response = 401"
      and pl: "payload response = Some d" and ex: "token_expired d"
      by blast
    have a1: "replies w = Reply response # replies w1"
      using fc r0 by auto
    have er: "expired_reply (Reply response)"
      using st pl ex by simp
    obtain r1 w2 where rt: "refreshToken w1 = (r1, w2)"
      by (cases "refreshToken w1")
    have unfold: "fetchWithAuth endpoint opts w =
        (case r1 of Return b \<Rightarrow> if b then fetchWithAuth endpoint opts w2
                                 else (Return None, handleLogout w2)
         | Throw e \<Rightarrow> (Throw e, w2) | Pending \<Rightarrow> (Pending, w2))"
      using f r0 st pl ex rt
      by (simp add: fetchWithAuth.simps [of endpoint opts w] andThen_def response_json_def
          split: outcome.splits)
    show ?thesis
    proof (cases "has_refresh_token w")
      case False
      then have "refreshToken w1 = (Return False, w1)"
        using refreshToken_no_token h1 by simp
      with rt unfold "1.prems" have "network w' = network w1 \<and> replies w' = replies w1"
        by auto
      with n1 a1 pc False show ?thesis
        by (intro exI [of _ "[?rq]"] exI [of _ "[Reply response]"]) (simp del: expired_reply.simps refresh_accepted.simps)
    next
      case has: True
      then have hw1: "has_refresh_token w1"
        using h1 by simp
      show ?thesis
      proof (cases "replies w1")
        case Nil
        from refreshToken_pending [OF hw1 Nil] rt obtain tok where
          nr: "network w2 = network w1 @ [refresh_request tok]" and rr: "replies w2 = []" and p: "r1 = Pending"
          by auto
        from unfold p "1.prems" have "w' = w2"
          by simp
        with n1 nr a1 rr Nil pc er has
          refresh_request_is_refresh_call [of tok] refresh_request_not_pipeline [of endpoint tok]
        show ?thesis
          by (intro exI [of _ "[?rq, refresh_request tok]"] exI [of _ "[Reply response]"]) (simp del: expired_reply.simps refresh_accepted.simps)
      next
        case (Cons rep rs)
        from refreshToken_reply [OF hw1 Cons] rt obtain tok where
          nr: "network w2 = network w1 @ [refresh_request tok]" and rr: "replies w2 = rs"
          and hw2: "has_refresh_token w2"
          and acc: "refresh_accepted rep \<longrightarrow> r1 = Return True"
          and dec: "refresh_declined rep \<longrightarrow> r1 = Return False"
          and brk: "refresh_broken rep \<longrightarrow> (\<exists>e. r1 = Throw e)"
          by auto
        have tri: "refresh_accepted rep \<or> refresh_declined rep \<or> refresh_broken rep"
          by (cases rep) auto
        show ?thesis
        proof (cases "refresh_accepted rep")
          case True
          with acc have t: "r1 = Return True"
            by simp
          with unfold "1.prems" have rec: "fetchWithAuth endpoint opts w2 = (res, w')"
            by simp
          from "1.IH" [OF f [unfolded r0] st _ ex rt [unfolded t] _ rec]
          obtain new2 ans2 where
            n2: "network w' = network w2 @ new2" and a2: "replies w2 = ans2 @ replies w'"
            and c1: "pipeline_calls endpoint new2 = 1 + accepted_refreshes (zip new2 ans2)"
            and c2: "refresh_calls new2 = (if has_refresh_token w2 then expired_answers endpoint (zip new2 ans2) else 0)"
            by (auto simp: response_json_def pl)
          show ?thesis
            using n1 nr n2 a1 Cons rr a2 c1 c2 pc er has hw2 True
              refresh_request_is_refresh_call [of tok] refresh_request_not_pipeline [of endpoint tok]
            by (intro exI [of _ "?rq # refresh_request tok # new2"]
                exI [of _ "Reply response # rep # ans2"]) (simp del: expired_reply.simps refresh_accepted.simps)
        next
          case False
          with tri dec brk have "r1 \<noteq> Return True"
            by auto
          with unfold "1.prems" have same: "network w' = network w2 \<and> replies w' = replies w2"
            by (auto split: outcome.splits if_splits)
          show ?thesis
            using same n1 nr a1 Cons rr pc er has False
              refresh_request_is_refresh_call [of tok] refresh_request_not_pipeline [of endpoint tok]
            by (intro exI [of _ "[?rq, refresh_request tok]"]
                exI [of _ "[Reply response, rep]"]) (simp del: expired_reply.simps refresh_accepted.simps)
        qed
      qed
    qed
  qed
qed

section \<open>Running the client on given replies\<close>

lemma fetchWithAuth_pending:
  "replies w = [] \<Longrightarrow>
     fetchWithAuth endpoint opts w =
       (Pending, w\<lparr>network := network w @ [pipeline_request endpoint opts w]\<rparr>)"
  by (simp add: fetchWithAuth.simps [of endpoint opts w] andThen_def fetch_def)

lemma fetchWithAuth_netfail:
  "replies w = NetFail # rs \<Longrightarrow>
     fetchWithAuth endpoint opts w =
       (Throw NetworkError, w\<lparr>network := network w @ [pipeline_request endpoint opts w], replies := rs\<rparr>)"
  by (simp add: fetchWithAuth.simps [of endpoint opts w] andThen_def fetch_def)

lemma fetchWithAuth_passes:
  "replies w = Reply r # rs \<Longrightarrow> status r \<noteq> 401 \<Longrightarrow>
     fetchWithAuth endpoint opts w =
       (Return (Some r), w\<lparr>network := network w @ [pipeline_request endpoint opts w], replies := rs\<rparr>)"
  by (simp add: fetchWithAuth.simps [of endpoint opts w] andThen_def fetch_def)

lemma fetchWithAuth_expired:
  "replies w = Reply r # rs \<Longrightarrow> status r = 401 \<Longrightarrow> payload r = Some d \<Longrightarrow> token_expired d \<Longrightarrow>
     fetchWithAuth endpoint opts w =
       andThen (refreshToken (w\<lparr>network := network w @ [pipeline_request endpoint opts w], replies := rs\<rparr>))
         (\<lambda>refreshSuccessful w2.
            if refreshSuccessful then fetchWithAuth endpoint opts w2
            else (Return None, handleLogout w2))"
  by (simp add: fetchWithAuth.simps [of endpoint opts w] andThen_def fetch_def response_json_def)

lemmas run_defs =
  playing_def page_def logged_in_def turn_reply_def plain_host_def
  handleActionSubmit_def submitted_action_def begin_submission_def receive_turn_def
  connection_lost_def end_submission_def action_endpoint_def action_options_def
  pipeline_request_def API_URL_def andThen_def tryCatch_def removeSkeleton_def
  skeleton_attached_def response_json_def ok_def renderGameTurn_def renderGameSuggestions_def
  renderPlayerStatus_def propOf_def length_gt0_def suggestion_button_def appendLog_def
  no_reply_entry_def fetchWithAuth_pending fetchWithAuth_netfail fetchWithAuth_passes
  js_def Let_def

lemmas pipeline_defs =
  fetchWithAuth_pending fetchWithAuth_netfail fetchWithAuth_passes fetchWithAuth_expired
  refreshToken_def fetch_def refresh_request_def token_expired_def handleLogout_def showView_def
  pipeline_request_def API_URL_def andThen_def response_json_def ok_def
  playing_def page_def logged_in_def no_options_def expired_def error_reply_def token_reply_def
  empty_reply_def html_reply_def refresh_calls_def pipeline_calls_def is_refresh_call_def is_pipeline_call_def
  issued_def answered_def js_def Let_def

lemmas edit_defs =
  click_edit_def editNarrative_def type_narrative_def click_save_def saveNarrativeEdit_def
  sync_narrative_def update_endpoint_def update_options_def alert_def empty_reply_def
  normalize_newlines.simps

section \<open>What a submission leaves untouched\<close>

lemma same_game_refl [simp]: "same_game w w"
  by (simp add: same_game_def)

lemma same_game_trans: "same_game w w1 \<Longrightarrow> same_game w1 w2 \<Longrightarrow> same_game w w2"
  by (simp add: same_game_def)

lemma fetch_same_game: "same_game w (snd (fetch rq w))"
  by (simp add: fetch_def Let_def same_game_def split: list.splits net_reply.splits)

lemma refreshToken_same_game: "same_game w (snd (refreshToken w))"
  by (auto simp: refreshToken_def andThen_def fetch_def Let_def same_game_def response_json_def
      split: option.splits list.splits net_reply.splits outcome.splits)

lemma handleLogout_same_game: "same_game w (handleLogout w)"
  by (simp add: handleLogout_def showView_def same_game_def)

lemma fetchWithAuth_same_game: "same_game w (snd (fetchWithAuth endpoint opts w))"
proof (induction endpoint opts w rule: fetchWithAuth.induct)
  case (1 endpoint opts w)
  let ?rq = "pipeline_request endpoint opts w"
  obtain r0 w1 where f: "fetch ?rq w = (r0, w1)"
    by (cases "fetch ?rq w")
  have g1: "same_game w w1"
    using fetch_same_game [of w ?rq] f by simp
  show ?case
  proof (cases "\<exists>response d. r0 = Return response \<and> status response = 401
                  \<and> payload response = Some d \<and> token_expired d")
    case False
    have "same_game w1 (snd (fetchWithAuth endpoint opts w))"
      using f False
      by (auto simp: fetchWithAuth.simps [of endpoint opts w] andThen_def response_json_def
          same_game_def handleApiError_def
          split: outcome.splits if_splits option.splits)
    with g1 show ?thesis
      by (rule same_game_trans)
  next
    case True
    then obtain response d where
      r0: "r0 = Return response" and st: "status response = 401"
      and pl: "payload response = Some d" and ex: "token_expired d"
      by blast
    obtain r1 w2 where rt: "refreshToken w1 = (r1, w2)"
      by (cases "refreshToken w1")
    have g2: "same_game w1 w2"
      using refreshToken_same_game [of w1] rt by simp
    have unfold: "fetchWithAuth endpoint opts w =
        (case r1 of Return b \<Rightarrow> if b then fetchWithAuth endpoint opts w2
                                 else (Return None, handleLogout w2)
         | Throw e \<Rightarrow> (Throw e, w2) | Pending \<Rightarrow> (Pending, w2))"
      using f r0 st pl ex rt
      by (simp add: fetchWithAuth.simps [of endpoint opts w] andThen_def response_json_def
          split: outcome.splits)
    have "same_game w2 (snd (fetchWithAuth endpoint opts w))"
    proof (cases "r1 = Return True")
      case True
      from "1.IH" [OF f [unfolded r0] st _ ex rt [unfolded True]]
      have "same_game w2 (snd (fetchWithAuth endpoint opts w2))"
        by (simp add: response_json_def pl)
      with unfold True show ?thesis by simp
    next
      case False
      with unfold show ?thesis
        by (auto simp: handleLogout_same_game split: outcome.splits)
    qed
    with g1 g2 show ?thesis
      by (blast intro: same_game_trans)
  qed
qed

lemma fetchWithAuth_calls:
  "\<exists>new. network (snd (fetchWithAuth endpoint opts w)) = network w @ pipeline_request endpoint opts w # new
     \<and> (\<forall>rq\<in>set new. (\<exists>tok. rq = refresh_request tok) \<or> (url rq = API_URL @ endpoint \<and> body rq = opt_body opts))"
proof (induction endpoint opts w rule: fetchWithAuth.induct)
  case (1 endpoint opts w)
  let ?rq = "pipeline_request endpoint opts w"
  obtain r0 w1 where f: "fetch ?rq w = (r0, w1)"
    by (cases "fetch ?rq w")
  have n1: "network w1 = network w @ [?rq]"
    using fetch_other [OF f] by simp
  show ?case
  proof (cases "\<exists>response d. r0 = Return response \<and> status response = 401
                  \<and> payload response = Some d \<and> token_expired d")
    case False
    have "network (snd (fetchWithAuth endpoint opts w)) = network w1"
      using f False
      by (auto simp: fetchWithAuth.simps [of endpoint opts w] andThen_def response_json_def
          split: outcome.splits if_splits option.splits)
    with n1 show ?thesis by simp
  next
    case True
    then obtain response d where
      r0: "r0 = Return response" and st: "status response = 401"
      and pl: "payload response = Some d" and ex: "token_expired d"
      by blast
    obtain r1 w2 where rt: "refreshToken w1 = (r1, w2)"
      by (cases "refreshToken w1")
    have unfold: "fetchWithAuth endpoint opts w =
        (case r1 of Return b \<Rightarrow> if b then fetchWithAuth endpoint opts w2
                                 else (Return None, handleLogout w2)
         | Throw e \<Rightarrow> (Throw e, w2) | Pending \<Rightarrow> (Pending, w2))"
      using f r0 st pl ex rt
      by (simp add: fetchWithAuth.simps [of endpoint opts w] andThen_def response_json_def
          split: outcome.splits)
    from refreshToken_trace [OF rt] obtain mid where
      nr: "network w2 = network w1 @ mid" and m: "\<forall>rq\<in>set mid. \<exists>tok. rq = refresh_request tok"
      by (elim disjE exE) fastforce+
    show ?thesis
    proof (cases "r1 = Return True")
      case True
      from "1.IH" [OF f [unfolded r0] st _ ex rt [unfolded True]]
      obtain new2 where
        n2: "network (snd (fetchWithAuth endpoint opts w2)) = network w2 @ pipeline_request endpoint opts w2 # new2"
        and c2: "\<forall>rq\<in>set new2. (\<exists>tok. rq = refresh_request tok) \<or> (url rq = API_URL @ endpoint \<and> body rq = opt_body opts)"
        by (auto simp: response_json_def pl)
      have p2: "url (pipeline_request endpoint opts w2) = API_URL @ endpoint \<and> body (pipeline_request endpoint opts w2) = opt_body opts"
        by (simp add: pipeline_request_def Let_def)
      show ?thesis
        using unfold True n1 nr n2 m c2 p2
        by (intro exI [of _ "mid @ pipeline_request endpoint opts w2 # new2"]) auto
    next
      case False
      with unfold have "network (snd (fetchWithAuth endpoint opts w)) = network w2"
        by (auto split: outcome.splits)
      with n1 nr m show ?thesis
        by (intro exI [of _ mid]) auto
    qed
  qed
qed

lemma appendLog_keeps [simp]:
  "network (appendLog t ty i w) = network w" "lastPlayerAction (appendLog t ty i w) = lastPlayerAction w"
  "actionInput (appendLog t ty i w) = actionInput w"
  by (simp_all add: appendLog_def Let_def)

lemma renderGameSuggestions_keeps:
  "network (snd (renderGameSuggestions h c w)) = network w
   \<and> lastPlayerAction (snd (renderGameSuggestions h c w)) = lastPlayerAction w
   \<and> actionInput (snd (renderGameSuggestions h c w)) = actionInput w"
  by (simp add: renderGameSuggestions_def Let_def)

lemma renderGameTurn_keeps:
  "network (snd (renderGameTurn h d w)) = network w
   \<and> lastPlayerAction (snd (renderGameTurn h d w)) = lastPlayerAction w
   \<and> actionInput (snd (renderGameTurn h d w)) = actionInput w"
  by (cases "getp d (js ''description'')")
    (simp_all add: renderGameTurn_def andThen_def Let_def renderPlayerStatus_def
      renderGameSuggestions_keeps)

lemma no_reply_entry_keeps:
  "network (snd (no_reply_entry e w)) = network w
   \<and> lastPlayerAction (snd (no_reply_entry e w)) = lastPlayerAction w
   \<and> actionInput (snd (no_reply_entry e w)) = actionInput w"
  by (cases "getp e (js ''error'')") (simp_all add: no_reply_entry_def andThen_def)

lemma receive_turn_keeps:
  "network (snd (receive_turn h response w)) = network w
   \<and> lastPlayerAction (snd (receive_turn h response w)) = lastPlayerAction w
   \<and> actionInput (snd (receive_turn h response w)) = actionInput w"
proof (cases "skeleton_attached w")
  case False
  then show ?thesis
    by (simp add: receive_turn_def removeSkeleton_def andThen_def)
next
  case True
  let ?w = "w\<lparr>gameLog := butlast (gameLog w)\<rparr>"
  show ?thesis
  proof (cases response)
    case None
    with True show ?thesis
      using no_reply_entry_keeps [of "Obj [(js ''error'', Str msg_unknown_error)]" ?w]
      by (simp add: receive_turn_def removeSkeleton_def andThen_def)
  next
    case (Some r)
    show ?thesis
    proof (cases "payload r")
      case None
      with True Some show ?thesis
        using no_reply_entry_keeps [of "Obj []" ?w]
        by (simp add: receive_turn_def removeSkeleton_def andThen_def response_json_def tryCatch_def)
    next
      case (Some d)
      obtain r2 w2 where rg: "renderGameTurn h d ?w = (r2, w2)"
        by (cases "renderGameTurn h d ?w")
      with True \<open>response = Some r\<close> Some show ?thesis
        using no_reply_entry_keeps [of d ?w] renderGameTurn_keeps [of h d ?w]
        by (cases r2) (simp_all add: receive_turn_def removeSkeleton_def andThen_def response_json_def tryCatch_def)
    qed
  qed
qed

lemma connection_lost_keeps:
  "network (snd (connection_lost w)) = network w
   \<and> lastPlayerAction (snd (connection_lost w)) = lastPlayerAction w
   \<and> actionInput (snd (connection_lost w)) = actionInput w"
  by (simp add: connection_lost_def)

text \<open>A submission that goes through, in terms of the run of the pipeline it contains.\<close>

lemma handleActionSubmit_run:
  assumes "truthy (submitted_action actionText w)"
  defines "w1 \<equiv> begin_submission actionText (submitted_action actionText w) w"
  defines "w2 \<equiv> snd (fetchWithAuth (action_endpoint w1) (action_options (submitted_action actionText w)) w1)"
  shows "network (snd (handleActionSubmit h actionText w)) = network w2"
    and "lastPlayerAction (snd (handleActionSubmit h actionText w)) = submitted_action actionText w"
    and "actionInput (snd (handleActionSubmit h actionText w)) = (if truthy actionText then actionInput w else [])"
    and "fst (handleActionSubmit h actionText w) = Return () \<Longrightarrow>
           retryAiBtn_shown (snd (handleActionSubmit h actionText w))
           \<and> \<not> retryAiBtn_disabled (snd (handleActionSubmit h actionText w))
           \<and> \<not> actionInput_disabled (snd (handleActionSubmit h actionText w))"
proof -
  let ?a = "submitted_action actionText w"
  obtain r2 where f: "fetchWithAuth (action_endpoint w1) (action_options ?a) w1 = (r2, w2)"
    unfolding w2_def by (cases "fetchWithAuth (action_endpoint w1) (action_options ?a) w1") simp
  have sg: "same_game w1 w2"
    using fetchWithAuth_same_game [of w1 "action_endpoint w1" "action_options ?a"] by (simp add: w2_def)
  have b: "lastPlayerAction w1 = ?a" "actionInput w1 = (if truthy actionText then actionInput w else [])"
    by (simp_all add: w1_def begin_submission_def Let_def)
  have k2: "lastPlayerAction w2 = ?a" "actionInput w2 = (if truthy actionText then actionInput w else [])"
    using sg b by (simp_all add: same_game_def)
  let ?t = "tryCatch (andThen (fetchWithAuth (action_endpoint w1) (action_options ?a) w1) (receive_turn h))
              (\<lambda>error. connection_lost)"
  have t: "network (snd ?t) = network w2 \<and> lastPlayerAction (snd ?t) = ?a
      \<and> actionInput (snd ?t) = (if truthy actionText then actionInput w else [])"
  proof (cases r2)
    case (Return resp)
    obtain r3 w3 where rc: "receive_turn h resp w2 = (r3, w3)"
      by (cases "receive_turn h resp w2")
    have "network w3 = network w2 \<and> lastPlayerAction w3 = lastPlayerAction w2 \<and> actionInput w3 = actionInput w2"
      using receive_turn_keeps [of h resp w2] rc by simp
    with f Return rc k2 show ?thesis
      using connection_lost_keeps [of w3]
      by (cases r3) (simp_all add: andThen_def tryCatch_def)
  next
    case (Throw e)
    with f k2 show ?thesis
      using connection_lost_keeps [of w2] by (simp add: andThen_def tryCatch_def)
  next
    case Pending
    with f k2 show ?thesis
      by (simp add: andThen_def tryCatch_def)
  qed
  have h: "handleActionSubmit h actionText w =
      (case ?t of
         (Return requestSucceeded, w') \<Rightarrow> (Return (), end_submission (retryAiBtn_text w) requestSucceeded w')
       | (Throw e, w') \<Rightarrow> (Throw e, end_submission (retryAiBtn_text w) False w')
       | (Pending, w') \<Rightarrow> (Pending, w'))"
    using assms(1) by (simp add: handleActionSubmit_def Let_def w1_def)
  obtain rt wt where tt: "?t = (rt, wt)"
    by (cases ?t)
  show "network (snd (handleActionSubmit h actionText w)) = network w2"
    "lastPlayerAction (snd (handleActionSubmit h actionText w)) = ?a"
    "actionInput (snd (handleActionSubmit h actionText w)) = (if truthy actionText then actionInput w else [])"
    using t unfolding h tt by (cases rt; simp add: end_submission_def)+
  show "fst (handleActionSubmit h actionText w) = Return () \<Longrightarrow>
           retryAiBtn_shown (snd (handleActionSubmit h actionText w))
           \<and> \<not> retryAiBtn_disabled (snd (handleActionSubmit h actionText w))
           \<and> \<not> actionInput_disabled (snd (handleActionSubmit h actionText w))"
    unfolding h tt by (cases rt; simp add: end_submission_def)
qed

text \<open>
  What a turn adds to the log: the narrator's text, when there is one, goes in with the
  history index 0, after the entries that are there, which do not change.
\<close>

lemma renderGameTurn_log:
  assumes "getp data (js ''description'') = Return d" and "truthy d"
  shows "\<exists>more. gameLog (snd (renderGameTurn h data w)) =
           gameLog w @ Narrative \<lparr>shown_text = d, history_index = Num 0, edited_class = False,
                                   edited_mark = False, editing = None\<rparr> # more"
  using assms
  by (simp add: renderGameTurn_def andThen_def Let_def appendLog_def renderPlayerStatus_def
      renderGameSuggestions_def)

lemma restore_entry_log:
  assumes "getp entry (js ''role'') = Return role" and "role \<noteq> Str (js ''ai'')"
  shows "restore_entry recent_history entry displayIndex w =
           (Return (), w\<lparr>gameLog := gameLog w @ [Plain role (propOf entry (js ''content''))]\<rparr>)"
  using assms by (simp add: restore_entry_def andThen_def Let_def appendLog_def)

section \<open>The claims\<close>

subsection \<open>C1: refresh and replay\<close>

text \<open>
  C1, as stated, fails: the replay goes through \<^verbatim>\<open>fetchWithAuth\<close> again, so a replay
  that is answered 401 \<^verbatim>\<open>token_expired\<close> triggers a second refresh and a second replay.
  In this run the pipeline makes two refresh calls and three calls of the endpoint.
\<close>

theorem single_refresh_counterexample:
  "fst expiring_twice = Return (Some \<lparr>status = 200, payload = Some (Obj [])\<rparr>)
   \<and> \<not> refresh_calls (network (snd expiring_twice)) \<le> 1
   \<and> \<not> pipeline_calls (js ''/sessions'') (network (snd expiring_twice)) \<le> 2
   \<and> map url (network (snd expiring_twice)) =
       [js ''/api/sessions'', js ''/api/refresh'', js ''/api/sessions'', js ''/api/refresh'',
        js ''/api/sessions'']"
  by (simp add: expiring_twice_def pipeline_defs)

text \<open>
  C1, amended: a call of the endpoint (the first one or a replay) that is answered 401
  \<^verbatim>\<open>token_expired\<close> triggers exactly one refresh call when a refresh token is stored, and
  none when there is none; an accepted refresh triggers exactly one replay, which goes through
  the pipeline like the first call. So, in every run of \<^verbatim>\<open>fetchWithAuth\<close>: the calls of
  the endpoint are one more than the accepted refreshes; the refresh calls are as many as the
  calls of the endpoint that were answered 401 \<^verbatim>\<open>token_expired\<close> (none without a stored
  refresh token); hence the replays are at most as many as the refresh calls, and these at
  most as many as the 401 \<^verbatim>\<open>token_expired\<close> replies consumed; and there is no other call.
\<close>

theorem refresh_per_expiry:
  "fetchWithAuth endpoint opts w = (res, w') \<Longrightarrow>
     pipeline_calls endpoint (issued w w') = 1 + accepted_refreshes (exchanges w w')
     \<and> refresh_calls (issued w w') =
         (if has_refresh_token w then expired_answers endpoint (exchanges w w') else 0)
     \<and> pipeline_calls endpoint (issued w w') \<le> 1 + refresh_calls (issued w w')
     \<and> refresh_calls (issued w w') \<le> length (filter expired_reply (answered w w'))
     \<and> pipeline_calls endpoint (issued w w') + refresh_calls (issued w w') = length (issued w w')"
proof -
  assume run: "fetchWithAuth endpoint opts w = (res, w')"
  from fetchWithAuth_exact [OF run] obtain new ans where
    n: "network w' = network w @ new" and a: "replies w = ans @ replies w'"
    and e: "pipeline_calls endpoint new = 1 + accepted_refreshes (zip new ans)"
      "refresh_calls new = (if has_refresh_token w then expired_answers endpoint (zip new ans) else 0)"
    by blast
  from fetchWithAuth_trace [OF run] obtain new' ans' where
    n': "network w' = network w @ new'" and a': "replies w = ans' @ replies w'"
    and c: "pipeline_calls endpoint new' \<le> 1 + refresh_calls new'"
      "refresh_calls new' \<le> length (filter expired_reply ans')"
      "pipeline_calls endpoint new' + refresh_calls new' = length new'"
    by blast
  have i: "issued w w' = new"
    by (simp add: issued_def n)
  have i': "issued w w' = new'"
    by (simp add: issued_def n')
  have b: "answered w w' = ans"
    by (simp add: answered_def a)
  have b': "answered w w' = ans'"
    by (simp add: answered_def a')
  show ?thesis
    using e [folded i b] c [folded i' b'] by (simp add: exchanges_def)
qed

theorem refresh_per_expiry_witness:
  "has_refresh_token (playing [expired, token_reply ''a1'', expired, error_reply 403 ''revoked''])
   \<and> pipeline_calls (js ''/x'') (issued (playing [expired, token_reply ''a1'', expired, error_reply 403 ''revoked''])
       (snd (fetchWithAuth (js ''/x'') no_options (playing [expired, token_reply ''a1'', expired, error_reply 403 ''revoked''])))) = 2
   \<and> accepted_refreshes (exchanges (playing [expired, token_reply ''a1'', expired, error_reply 403 ''revoked''])
       (snd (fetchWithAuth (js ''/x'') no_options (playing [expired, token_reply ''a1'', expired, error_reply 403 ''revoked''])))) = 1
   \<and> refresh_calls (issued (playing [expired, token_reply ''a1'', expired, error_reply 403 ''revoked''])
       (snd (fetchWithAuth (js ''/x'') no_options (playing [expired, token_reply ''a1'', expired, error_reply 403 ''revoked''])))) = 2
   \<and> expired_answers (js ''/x'') (exchanges (playing [expired, token_reply ''a1'', expired, error_reply 403 ''revoked''])
       (snd (fetchWithAuth (js ''/x'') no_options (playing [expired, token_reply ''a1'', expired, error_reply 403 ''revoked''])))) = 2"
proof -
  let ?w = "playing [expired, token_reply ''a1'', expired, error_reply 403 ''revoked'']"
  obtain res w' where run: "fetchWithAuth (js ''/x'') no_options ?w = (res, w')"
    by (cases "fetchWithAuth (js ''/x'') no_options ?w")
  have h: "has_refresh_token ?w"
    by (simp add: has_refresh_token_def pipeline_defs)
  have p: "pipeline_calls (js ''/x'') (issued ?w (snd (fetchWithAuth (js ''/x'') no_options ?w))) = 2"
    by (simp add: pipeline_defs)
  have r: "refresh_calls (issued ?w (snd (fetchWithAuth (js ''/x'') no_options ?w))) = 2"
    by (simp add: pipeline_defs)
  from refresh_per_expiry [OF run] h p r run show ?thesis
    by simp
qed

subsection \<open>C2: a failed refresh logs out\<close>

text \<open>
  C2, as stated, fails when the refresh fails by throwing: \<^verbatim>\<open>fetchWithAuth\<close> awaits
  \<^verbatim>\<open>refreshToken\<close> without a \<^verbatim>\<open>try\<close>, so a transport failure of the refresh call (or
  a reply to it whose body is not JSON) reaches the caller as an exception. The caller gets
  no \<^verbatim>\<open>null\<close>, and the tokens and the view stay as they were.
\<close>

theorem refresh_transport_failure_counterexample:
  "fst (fetchWithAuth (js ''/sessions'') no_options (playing [expired, NetFail])) = Throw NetworkError
   \<and> fst (fetchWithAuth (js ''/sessions'') no_options (playing [expired, NetFail])) \<noteq> Return None
   \<and> accessToken (snd (fetchWithAuth (js ''/sessions'') no_options (playing [expired, NetFail]))) = Str (js ''a0'')
   \<and> localStorage (snd (fetchWithAuth (js ''/sessions'') no_options (playing [expired, NetFail]))) (js ''access_token'') = Some (js ''a0'')
   \<and> localStorage (snd (fetchWithAuth (js ''/sessions'') no_options (playing [expired, NetFail]))) (js ''refresh_token'') = Some (js ''r0'')
   \<and> view (snd (fetchWithAuth (js ''/sessions'') no_options (playing [expired, NetFail]))) = js ''game-view''
   \<and> fst (fetchWithAuth (js ''/sessions'') no_options (playing [expired, html_reply 502])) = Throw SyntaxError
   \<and> localStorage (snd (fetchWithAuth (js ''/sessions'') no_options (playing [expired, html_reply 502]))) (js ''refresh_token'') = Some (js ''r0'')"
  by (simp add: pipeline_defs)

text \<open>
  C2, amended: let the reply to a call of the pipeline be 401 with the error kind
  \<^verbatim>\<open>token_expired\<close>. When the refresh returns failure (no refresh token is stored, or the
  refresh call is answered by a failure status with a JSON body), the caller gets
  \<^verbatim>\<open>null\<close>, the access token of the page state is \<^verbatim>\<open>null\<close>, the keys
  \<^verbatim>\<open>access_token\<close> and \<^verbatim>\<open>refresh_token\<close> are gone from local storage, and the login
  view is shown. When the refresh throws (the refresh call fails in transport, or its reply
  has no JSON body), the exception goes on to the caller of the pipeline, and the access
  token, local storage and the view are left as they were.
\<close>

theorem refresh_failure_logs_out:
  assumes "replies w = Reply r # rs" and "status r = 401" and "payload r = Some d"
    and "token_expired d"
  shows "(\<not> has_refresh_token w \<or> (\<exists>rep rs'. rs = rep # rs' \<and> refresh_declined rep) \<longrightarrow>
            fst (fetchWithAuth endpoint opts w) = Return None
            \<and> accessToken (snd (fetchWithAuth endpoint opts w)) = Null
            \<and> localStorage (snd (fetchWithAuth endpoint opts w)) (js ''access_token'') = None
            \<and> localStorage (snd (fetchWithAuth endpoint opts w)) (js ''refresh_token'') = None
            \<and> view (snd (fetchWithAuth endpoint opts w)) = js ''auth-view'')
     \<and> (has_refresh_token w \<and> (\<exists>rep rs'. rs = rep # rs' \<and> refresh_broken rep) \<longrightarrow>
            (\<exists>e. fst (fetchWithAuth endpoint opts w) = Throw e)
            \<and> accessToken (snd (fetchWithAuth endpoint opts w)) = accessToken w
            \<and> localStorage (snd (fetchWithAuth endpoint opts w)) = localStorage w
            \<and> view (snd (fetchWithAuth endpoint opts w)) = view w)"
proof -
  let ?w1 = "w\<lparr>network := network w @ [pipeline_request endpoint opts w], replies := rs\<rparr>"
  have step: "fetchWithAuth endpoint opts w =
      andThen (refreshToken ?w1) (\<lambda>refreshSuccessful w2.
        if refreshSuccessful then fetchWithAuth endpoint opts w2
        else (Return None, handleLogout w2))"
    using assms by (rule fetchWithAuth_expired)
  have h1: "has_refresh_token ?w1 = has_refresh_token w"
    by (simp add: has_refresh_token_def)
  obtain r1 w2 where rt: "refreshToken ?w1 = (r1, w2)"
    by (cases "refreshToken ?w1")
  have logout: "r1 = Return False \<Longrightarrow>
      fst (fetchWithAuth endpoint opts w) = Return None
      \<and> accessToken (snd (fetchWithAuth endpoint opts w)) = Null
      \<and> localStorage (snd (fetchWithAuth endpoint opts w)) (js ''access_token'') = None
      \<and> localStorage (snd (fetchWithAuth endpoint opts w)) (js ''refresh_token'') = None
      \<and> view (snd (fetchWithAuth endpoint opts w)) = js ''auth-view''"
    unfolding step rt by (simp add: andThen_def handleLogout_def showView_def)
  have A: "fst (fetchWithAuth endpoint opts w) = Return None
      \<and> accessToken (snd (fetchWithAuth endpoint opts w)) = Null
      \<and> localStorage (snd (fetchWithAuth endpoint opts w)) (js ''access_token'') = None
      \<and> localStorage (snd (fetchWithAuth endpoint opts w)) (js ''refresh_token'') = None
      \<and> view (snd (fetchWithAuth endpoint opts w)) = js ''auth-view''"
    if a: "\<not> has_refresh_token w \<or> (\<exists>rep rs'. rs = rep # rs' \<and> refresh_declined rep)"
  proof -
    have "r1 = Return False"
    proof (cases "has_refresh_token w")
      case False
      then show ?thesis
        using refreshToken_no_token [of ?w1] h1 rt by simp
    next
      case True
      with a obtain rep rs' where rs: "rs = rep # rs'" and dec: "refresh_declined rep"
        by blast
      have "replies ?w1 = rep # rs'"
        by (simp add: rs)
      from refreshToken_reply [OF _ this] True h1 dec rt show ?thesis
        by auto
    qed
    then show ?thesis
      by (rule logout)
  qed
  have B: "(\<exists>e. fst (fetchWithAuth endpoint opts w) = Throw e)
      \<and> accessToken (snd (fetchWithAuth endpoint opts w)) = accessToken w
      \<and> localStorage (snd (fetchWithAuth endpoint opts w)) = localStorage w
      \<and> view (snd (fetchWithAuth endpoint opts w)) = view w"
    if b: "has_refresh_token w \<and> (\<exists>rep rs'. rs = rep # rs' \<and> refresh_broken rep)"
  proof -
    from b obtain rep rs' where rs: "rs = rep # rs'" and brk: "refresh_broken rep"
      by blast
    have na: "\<not> refresh_accepted rep"
      using brk by (cases rep) auto
    have "replies ?w1 = rep # rs'"
      by (simp add: rs)
    from refreshToken_reply [OF _ this] b h1 brk na rt obtain e where
      r1: "r1 = Throw e" and k: "accessToken w2 = accessToken w" "localStorage w2 = localStorage w"
        "view w2 = view w"
      by auto
    show ?thesis
      unfolding step rt using r1 k by (simp add: andThen_def)
  qed
  show ?thesis
    using A B by blast
qed

theorem refresh_failure_logs_out_witness:
  "fst (fetchWithAuth (js ''/sessions'') no_options (playing [expired, error_reply 401 ''invalid_token''])) = Return None
   \<and> accessToken (snd (fetchWithAuth (js ''/sessions'') no_options (playing [expired, error_reply 401 ''invalid_token'']))) = Null
   \<and> localStorage (snd (fetchWithAuth (js ''/sessions'') no_options (playing [expired, error_reply 401 ''invalid_token'']))) (js ''access_token'') = None
   \<and> localStorage (snd (fetchWithAuth (js ''/sessions'') no_options (playing [expired, error_reply 401 ''invalid_token'']))) (js ''refresh_token'') = None
   \<and> view (snd (fetchWithAuth (js ''/sessions'') no_options (playing [expired, error_reply 401 ''invalid_token'']))) = js ''auth-view''
   \<and> localStorage (playing [expired, error_reply 401 ''invalid_token'']) (js ''refresh_token'') = Some (js ''r0'')
   \<and> fst (fetchWithAuth (js ''/sessions'') no_options ((playing [expired])\<lparr>localStorage := Map.empty\<rparr>)) = Return None
   \<and> view (snd (fetchWithAuth (js ''/sessions'') no_options ((playing [expired])\<lparr>localStorage := Map.empty\<rparr>))) = js ''auth-view''
   \<and> (\<exists>e. fst (fetchWithAuth (js ''/sessions'') no_options (playing [expired, html_reply 502])) = Throw e)
   \<and> accessToken (snd (fetchWithAuth (js ''/sessions'') no_options (playing [expired, html_reply 502]))) = Str (js ''a0'')"
proof -
  let ?d = "Obj [(js ''error'', Str (js ''token_expired''))]"
  let ?r = "\<lparr>status = 401, payload = Some ?d\<rparr>"
  let ?w = "playing [expired, error_reply 401 ''invalid_token'']"
  let ?v = "(playing [expired])\<lparr>localStorage := Map.empty\<rparr>"
  let ?u = "playing [expired, html_reply 502]"
  have 1: "replies ?w = Reply ?r # [error_reply 401 ''invalid_token'']"
    and v1: "replies ?v = Reply ?r # []"
    and u1: "replies ?u = Reply ?r # [html_reply 502]"
    by (simp_all add: playing_def page_def expired_def error_reply_def)
  have 2: "status ?r = 401" and 3: "payload ?r = Some ?d"
    by simp_all
  have 4: "token_expired ?d"
    by (simp add: token_expired_def)
  have 5: "\<not> has_refresh_token ?w \<or> (\<exists>rep rs'. [error_reply 401 ''invalid_token''] = rep # rs' \<and> refresh_declined rep)"
    by (simp add: error_reply_def ok_def)
  have v5: "\<not> has_refresh_token ?v \<or> (\<exists>rep rs'. [] = rep # rs' \<and> refresh_declined rep)"
    by (simp add: has_refresh_token_def)
  have u5: "has_refresh_token ?u \<and> (\<exists>rep rs'. [html_reply 502] = rep # rs' \<and> refresh_broken rep)"
    by (simp add: has_refresh_token_def html_reply_def playing_def page_def logged_in_def js_def)
  have 6: "localStorage ?w (js ''refresh_token'') = Some (js ''r0'')"
    by (simp add: playing_def page_def logged_in_def js_def)
  have 7: "accessToken ?u = Str (js ''a0'')"
    by (simp add: playing_def page_def logged_in_def js_def)
  note A = refresh_failure_logs_out [OF 1 2 3 4, of "js ''/sessions''" no_options, THEN conjunct1, rule_format, OF 5]
  note B = refresh_failure_logs_out [OF v1 2 3 4, of "js ''/sessions''" no_options, THEN conjunct1, rule_format, OF v5]
  note C = refresh_failure_logs_out [OF u1 2 3 4, of "js ''/sessions''" no_options, THEN conjunct2, rule_format, OF u5]
  show ?thesis
    using A B C [unfolded 7] 6 by blast
qed

subsection \<open>C3: the history index an entry submits\<close>

text \<open>
  C3 does not hold of the code. \<^verbatim>\<open>renderGameTurn\<close> gives every new narrator entry the
  history index 0, and the entries already in the log stay as they are. So after two turns
  (the narratives A, then B) both narrator entries on screen carry the index 0; saving an
  edit of the first one sends \<^verbatim>\<open>history_index: 0\<close>, and on the server, where the newest
  entry is first, index 0 is the entry of the second turn: the edit lands on B, not on A.
\<close>

theorem stale_history_index:
  "gameLog two_turns =
     [Plain (Str (js ''player'')) (Str (js ''go'')),
      Narrative \<lparr>shown_text = Str (js ''A''), history_index = Num 0, edited_class = False,
                  edited_mark = False, editing = None\<rparr>,
      Plain (Str (js ''player'')) (Str (js ''on'')),
      Narrative \<lparr>shown_text = Str (js ''B''), history_index = Num 0, edited_class = False,
                  edited_mark = False, editing = None\<rparr>]
   \<and> body (last (network first_edited))
       = Some (Obj [(js ''narrative'', Str (js ''A2'')), (js ''history_index'', Num 0)])
   \<and> appendAtHead (Str (js ''B'')) (appendAtHead (Str (js ''A'')) []) = [Str (js ''B''), Str (js ''A'')]
   \<and> editByIndex 0 (Str (js ''A2'')) [Str (js ''B''), Str (js ''A'')] = Some [Str (js ''A2''), Str (js ''A'')]"
  by (simp add: first_edited_def two_turns_def run_defs edit_defs nat_digits.simps trim_def is_space_def
      appendAtHead_def editByIndex_def)

subsection \<open>C4: a 401 that is not an expiry\<close>

text \<open>
  C4 does not hold of the code. When the reply is 401 with a JSON body whose error kind is
  not \<^verbatim>\<open>token_expired\<close>, the pipeline returns \<^verbatim>\<open>null\<close> and shows the error with a
  retry button, but it hands \<^verbatim>\<open>handleLogout\<close> to that button instead of calling it:
  apart from the error box and the record of the network, nothing changes. The tokens stay
  in the page state and in local storage and the view stays, until the user clicks.
\<close>

theorem auth_rejected_keeps_credentials:
  assumes "replies w = Reply r # rs" and "status r = 401" and "payload r = Some d"
    and "\<not> token_expired d"
  shows "fetchWithAuth endpoint opts w =
           (Return None,
            w\<lparr>network := network w @ [pipeline_request endpoint opts w], replies := rs,
              globalError := \<lparr>shown = True, message = msg_login_expired,
                               retry = Some HandleLogout, feedback_link = False\<rparr>\<rparr>)"
proof -
  let ?w1 = "w\<lparr>network := network w @ [pipeline_request endpoint opts w], replies := rs\<rparr>"
  have f: "fetch (pipeline_request endpoint opts w) w = (Return r, ?w1)"
    using assms(1) by (simp add: fetch_def Let_def)
  show ?thesis
    using f assms(2-4)
    by (simp add: fetchWithAuth.simps [of endpoint opts w] andThen_def response_json_def
        handleApiError_def)
qed

theorem auth_rejected_keeps_credentials_witness:
  "fst (fetchWithAuth (js ''/sessions'') no_options (playing [error_reply 401 ''invalid_token''])) = Return None
   \<and> accessToken (snd (fetchWithAuth (js ''/sessions'') no_options (playing [error_reply 401 ''invalid_token'']))) = Str (js ''a0'')
   \<and> localStorage (snd (fetchWithAuth (js ''/sessions'') no_options (playing [error_reply 401 ''invalid_token'']))) (js ''access_token'') = Some (js ''a0'')
   \<and> localStorage (snd (fetchWithAuth (js ''/sessions'') no_options (playing [error_reply 401 ''invalid_token'']))) (js ''refresh_token'') = Some (js ''r0'')
   \<and> view (snd (fetchWithAuth (js ''/sessions'') no_options (playing [error_reply 401 ''invalid_token'']))) = js ''game-view''
   \<and> retry (globalError (snd (fetchWithAuth (js ''/sessions'') no_options (playing [error_reply 401 ''invalid_token''])))) = Some HandleLogout
   \<and> accessToken (click_error_retry (snd (fetchWithAuth (js ''/sessions'') no_options (playing [error_reply 401 ''invalid_token''])))) = Null
   \<and> view (click_error_retry (snd (fetchWithAuth (js ''/sessions'') no_options (playing [error_reply 401 ''invalid_token''])))) = js ''auth-view''"
proof -
  let ?d = "Obj [(js ''error'', Str (js ''invalid_token''))]"
  let ?r = "\<lparr>status = 401, payload = Some ?d\<rparr>"
  let ?w = "playing [error_reply 401 ''invalid_token'']"
  have 1: "replies ?w = Reply ?r # []"
    by (simp add: playing_def page_def error_reply_def)
  have 2: "status ?r = 401" and 3: "payload ?r = Some ?d"
    by simp_all
  have 4: "\<not> token_expired ?d"
    by (simp add: token_expired_def js_def)
  show ?thesis
    unfolding auth_rejected_keeps_credentials [OF 1 2 3 4]
    by (simp add: playing_def page_def logged_in_def js_def click_error_retry_def handleLogout_def showView_def)
qed

subsection \<open>C5: an empty action\<close>

text \<open>
  C5, as stated, fails for an action text passed directly: only the contents of the input box
  are trimmed. A text of two spaces given as \<^verbatim>\<open>actionText\<close> is submitted as it is: the
  call is made and the log gets the player's entry and the narrator's reply.
\<close>

theorem blank_action_text_counterexample:
  "trim (js ''  '') = []
   \<and> fst (handleActionSubmit plain_host (Str (js ''  '')) (playing [turn_reply ''A''])) = Return ()
   \<and> map body (network (snd (handleActionSubmit plain_host (Str (js ''  '')) (playing [turn_reply ''A'']))))
       = [Some (Obj [(js ''action'', Str (js ''  ''))])]
   \<and> network (playing [turn_reply ''A'']) = []
   \<and> gameLog (playing [turn_reply ''A'']) = []
   \<and> gameLog (snd (handleActionSubmit plain_host (Str (js ''  '')) (playing [turn_reply ''A''])))
       = [Plain (Str (js ''player'')) (Str (js ''  '')),
          Narrative \<lparr>shown_text = Str (js ''A''), history_index = Num 0, edited_class = False,
                      edited_mark = False, editing = None\<rparr>]"
  by (simp add: run_defs nat_digits.simps trim_def is_space_def)

text \<open>
  C5, amended: when \<^verbatim>\<open>actionText\<close> is absent or empty (falsy) and the input box is empty
  or holds white space only, \<^verbatim>\<open>handleActionSubmit\<close> returns at once and nothing changes:
  no call is issued and no entry is appended.
\<close>

theorem empty_action_rejected:
  "\<not> truthy actionText \<Longrightarrow> trim (actionInput w) = [] \<Longrightarrow>
     handleActionSubmit h actionText w = (Return (), w)"
  by (simp add: handleActionSubmit_def submitted_action_def)

theorem empty_action_rejected_witness:
  "handleActionSubmit plain_host Undefined ((playing [turn_reply ''A''])\<lparr>actionInput := js ''  ''\<rparr>)
     = (Return (), (playing [turn_reply ''A''])\<lparr>actionInput := js ''  ''\<rparr>)
   \<and> handleActionSubmit plain_host (Str []) (playing [turn_reply ''A''])
     = (Return (), playing [turn_reply ''A''])"
proof -
  have 1: "\<not> truthy Undefined" and 2: "\<not> truthy (Str [])"
    by simp_all
  have 3: "trim (actionInput ((playing [turn_reply ''A''])\<lparr>actionInput := js ''  ''\<rparr>)) = []"
    by (simp add: trim_def js_def is_space_def)
  have 4: "trim (actionInput (playing [turn_reply ''A''])) = []"
    by (simp add: trim_def playing_def page_def)
  show ?thesis
    using empty_action_rejected [OF 1 3] empty_action_rejected [OF 2 4] by simp
qed

subsection \<open>C6: the refresh protocol\<close>

text \<open>
  C6, as stated, fails on a reply whose body is not JSON: \<^verbatim>\<open>refreshToken\<close> parses the body
  before it looks at the status, so a failure with such a body makes it throw instead of
  returning \<^verbatim>\<open>false\<close>, and a success with such a body makes it throw instead of storing
  a token and returning \<^verbatim>\<open>true\<close>.
\<close>

theorem refresh_body_counterexample:
  "has_refresh_token (page logged_in [html_reply 500])
   \<and> fst (refreshToken (page logged_in [html_reply 500])) = Throw SyntaxError
   \<and> fst (refreshToken (page logged_in [html_reply 500])) \<noteq> Return False
   \<and> fst (refreshToken (page logged_in [html_reply 200])) = Throw SyntaxError
   \<and> fst (refreshToken (page logged_in [html_reply 200])) \<noteq> Return True
   \<and> accessToken (snd (refreshToken (page logged_in [html_reply 200]))) = Str (js ''a0'')"
  by (simp add: has_refresh_token_def pipeline_defs)

text \<open>
  C6, amended. \<^verbatim>\<open>refreshToken\<close>: with no stored refresh token (\<^verbatim>\<open>!refreshToken\<close>: none,
  or the empty string) it returns \<^verbatim>\<open>false\<close> at once and nothing changes, so no call is
  made. Otherwise it issues exactly one call, whatever the reply: a POST to
  \<^verbatim>\<open>/api/refresh\<close> whose only header is the content type (no \<^verbatim>\<open>Authorization\<close>, and
  not the \<^verbatim>\<open>credentials\<close> header of the pipeline) and whose body carries the refresh
  token. When the reply is a success with a JSON body whose \<^verbatim>\<open>access_token\<close> is a string,
  that string is stored in the page state and in local storage and the result is
  \<^verbatim>\<open>true\<close>; when the reply is a failure with a JSON body (not \<^verbatim>\<open>null\<close>), the result is
  \<^verbatim>\<open>false\<close> and only the record of the network has changed. And whenever the result is not
  \<^verbatim>\<open>true\<close> (it is \<^verbatim>\<open>false\<close>, an exception, or still awaited), the access token and
  local storage are as before: no credential is touched.
\<close>

theorem refreshToken_protocol:
  "(localStorage w (js ''refresh_token'') \<in> {None, Some []} \<longrightarrow> refreshToken w = (Return False, w))
   \<and> (\<forall>tok. localStorage w (js ''refresh_token'') = Some tok \<and> tok \<noteq> [] \<longrightarrow>
         network (snd (refreshToken w)) = network w @ [refresh_request tok]
         \<and> url (refresh_request tok) = js ''/api/refresh''
         \<and> map fst (headers (refresh_request tok)) = [js ''Content-Type'']
         \<and> body (refresh_request tok) = Some (Obj [(js ''refresh_token'', Str tok)])
         \<and> (\<forall>r rs d s. replies w = Reply r # rs \<and> ok r \<and> payload r = Some d
                \<and> getp d (js ''access_token'') = Return (Str s) \<longrightarrow>
              refreshToken w =
                (Return True,
                 w\<lparr>accessToken := Str s,
                   localStorage := (localStorage w)(js ''access_token'' \<mapsto> s),
                   network := network w @ [refresh_request tok], replies := rs\<rparr>))
         \<and> (\<forall>r rs. replies w = Reply r # rs \<and> \<not> ok r \<and> json_body r \<longrightarrow>
              refreshToken w =
                (Return False, w\<lparr>network := network w @ [refresh_request tok], replies := rs\<rparr>)))
   \<and> (fst (refreshToken w) \<noteq> Return True \<longrightarrow>
         accessToken (snd (refreshToken w)) = accessToken w
         \<and> localStorage (snd (refreshToken w)) = localStorage w)"
proof -
  have none: "refreshToken w = (Return False, w)"
    if "localStorage w (js ''refresh_token'') \<in> {None, Some []}"
    using that by (auto simp: refreshToken_def)
  have some: "network (snd (refreshToken w)) = network w @ [refresh_request tok]
         \<and> url (refresh_request tok) = js ''/api/refresh''
         \<and> map fst (headers (refresh_request tok)) = [js ''Content-Type'']
         \<and> body (refresh_request tok) = Some (Obj [(js ''refresh_token'', Str tok)])
         \<and> (\<forall>r rs d s. replies w = Reply r # rs \<and> ok r \<and> payload r = Some d
                \<and> getp d (js ''access_token'') = Return (Str s) \<longrightarrow>
              refreshToken w =
                (Return True,
                 w\<lparr>accessToken := Str s,
                   localStorage := (localStorage w)(js ''access_token'' \<mapsto> s),
                   network := network w @ [refresh_request tok], replies := rs\<rparr>))
         \<and> (\<forall>r rs. replies w = Reply r # rs \<and> \<not> ok r \<and> json_body r \<longrightarrow>
              refreshToken w =
                (Return False, w\<lparr>network := network w @ [refresh_request tok], replies := rs\<rparr>))"
    if a: "localStorage w (js ''refresh_token'') = Some tok \<and> tok \<noteq> []" for tok
  proof -
    from a have rt: "refreshToken w = andThen (fetch (refresh_request tok) w) (\<lambda>response w1.
            andThen (response_json response, w1) (\<lambda>data w1.
              if ok response then
                andThen (getp data (js ''access_token''), w1) (\<lambda>t w1.
                  (Return True,
                   w1\<lparr>localStorage := (localStorage w1)(js ''access_token'' \<mapsto> ToString t),
                      accessToken := t\<rparr>))
              else
                andThen (getp data (js ''error''), w1) (\<lambda>err w1. (Return False, w1))))"
      by (simp add: refreshToken_def)
    have n: "network (snd (refreshToken w)) = network w @ [refresh_request tok]"
      unfolding rt
      by (auto simp: andThen_def fetch_def Let_def response_json_def
          split: list.splits net_reply.splits option.splits outcome.splits)
    have q: "url (refresh_request tok) = js ''/api/refresh''"
      "map fst (headers (refresh_request tok)) = [js ''Content-Type'']"
      "body (refresh_request tok) = Some (Obj [(js ''refresh_token'', Str tok)])"
      by (simp_all add: refresh_request_def)
    have s: "refreshToken w =
                (Return True,
                 w\<lparr>accessToken := Str s,
                   localStorage := (localStorage w)(js ''access_token'' \<mapsto> s),
                   network := network w @ [refresh_request tok], replies := rs\<rparr>)"
      if "replies w = Reply r # rs \<and> ok r \<and> payload r = Some d
                \<and> getp d (js ''access_token'') = Return (Str s)" for r rs d s
      using that unfolding rt by (simp add: andThen_def fetch_def Let_def response_json_def)
    have f: "refreshToken w =
                (Return False, w\<lparr>network := network w @ [refresh_request tok], replies := rs\<rparr>)"
      if h: "replies w = Reply r # rs \<and> \<not> ok r \<and> json_body r" for r rs
    proof -
      from h obtain d where d: "payload r = Some d" "d \<noteq> Null" "d \<noteq> Undefined"
        by (auto split: option.splits)
      then obtain e where "getp d (js ''error'') = Return e"
        using getp_Return by blast
      with h d show ?thesis
        unfolding rt by (simp add: andThen_def fetch_def Let_def response_json_def)
    qed
    show ?thesis
      using n q s f by blast
  qed
  have kept: "accessToken (snd (refreshToken w)) = accessToken w
         \<and> localStorage (snd (refreshToken w)) = localStorage w"
    if nt: "fst (refreshToken w) \<noteq> Return True"
  proof (cases "has_refresh_token w")
    case False
    then show ?thesis
      by (simp add: refreshToken_no_token)
  next
    case True
    show ?thesis
    proof (cases "replies w")
      case Nil
      with True show ?thesis
        by (auto simp: has_refresh_token_def refreshToken_def andThen_def fetch_def Let_def
            split: option.splits)
    next
      case (Cons rep rs)
      from refreshToken_reply [OF True Cons] nt show ?thesis
        by auto
    qed
  qed
  show ?thesis
    using none some kept by blast
qed

theorem refreshToken_protocol_witness:
  "refreshToken (page Map.empty [empty_reply]) = (Return False, page Map.empty [empty_reply])
   \<and> fst (refreshToken (page logged_in [token_reply ''a1''])) = Return True
   \<and> accessToken (snd (refreshToken (page logged_in [token_reply ''a1'']))) = Str (js ''a1'')
   \<and> localStorage (snd (refreshToken (page logged_in [token_reply ''a1'']))) (js ''access_token'') = Some (js ''a1'')
   \<and> map url (network (snd (refreshToken (page logged_in [token_reply ''a1''])))) = [js ''/api/refresh'']
   \<and> fst (refreshToken (page logged_in [error_reply 401 ''token_expired''])) = Return False
   \<and> accessToken (snd (refreshToken (page logged_in [error_reply 401 ''token_expired'']))) = Str (js ''a0'')
   \<and> localStorage (snd (refreshToken (page logged_in [error_reply 401 ''token_expired'']))) = logged_in
   \<and> length (network (snd (refreshToken (page logged_in [error_reply 401 ''token_expired''])))) = 1
   \<and> fst (refreshToken (page logged_in [NetFail])) \<noteq> Return True
   \<and> localStorage (snd (refreshToken (page logged_in [NetFail]))) = logged_in"
proof -
  let ?w0 = "page Map.empty [empty_reply]"
  let ?d1 = "Obj [(js ''access_token'', Str (js ''a1''))]"
  let ?r1 = "\<lparr>status = 200, payload = Some ?d1\<rparr>"
  let ?w1 = "page logged_in [Reply ?r1]"
  let ?r2 = "\<lparr>status = 401, payload = Some (Obj [(js ''error'', Str (js ''token_expired''))])\<rparr>"
  let ?w2 = "page logged_in [Reply ?r2]"
  let ?w3 = "page logged_in [NetFail]"
  have a: "localStorage ?w0 (js ''refresh_token'') \<in> {None, Some []}"
    by (simp add: page_def)
  have b1: "localStorage ?w1 (js ''refresh_token'') = Some (js ''r0'') \<and> js ''r0'' \<noteq> []"
    by (simp add: page_def logged_in_def js_def)
  have b2: "localStorage ?w2 (js ''refresh_token'') = Some (js ''r0'') \<and> js ''r0'' \<noteq> []"
    by (simp add: page_def logged_in_def js_def)
  have c1: "replies ?w1 = Reply ?r1 # [] \<and> ok ?r1 \<and> payload ?r1 = Some ?d1
     \<and> getp ?d1 (js ''access_token'') = Return (Str (js ''a1''))"
    by (simp add: page_def ok_def)
  have c2: "replies ?w2 = Reply ?r2 # [] \<and> \<not> ok ?r2 \<and> json_body ?r2"
    by (simp add: page_def ok_def)
  have c3: "fst (refreshToken ?w3) \<noteq> Return True"
    by (simp add: pipeline_defs)
  note T0 = refreshToken_protocol [of ?w0, THEN conjunct1, rule_format, OF a]
  note T1 = refreshToken_protocol [of ?w1, THEN conjunct2, THEN conjunct1, rule_format, OF b1]
  note T2 = refreshToken_protocol [of ?w2, THEN conjunct2, THEN conjunct1, rule_format, OF b2]
  note T3 = refreshToken_protocol [of ?w3, THEN conjunct2, THEN conjunct2, rule_format, OF c3]
  note S1 = T1 [THEN conjunct2, THEN conjunct2, THEN conjunct2, THEN conjunct2, THEN conjunct1, rule_format, OF c1]
  note S2 = T2 [THEN conjunct2, THEN conjunct2, THEN conjunct2, THEN conjunct2, THEN conjunct2, rule_format, OF c2]
  have l3: "localStorage ?w3 = logged_in"
    by (simp add: page_def)
  show ?thesis
    unfolding token_reply_def error_reply_def
    using c3 T3 [unfolded l3]
    by (simp add: T0 S1 S2) (simp add: page_def refresh_request_def logged_in_def js_def)
qed

subsection \<open>C7: the normalization of a choice\<close>

text \<open>
  C7, as stated, fails on a structured choice whose \<^verbatim>\<open>action_command\<close> is
  \<^verbatim>\<open>null\<close>: the code tests \<^verbatim>\<open>action_command !== undefined\<close>, so the button submits
  \<^verbatim>\<open>null\<close>, where \<^verbatim>\<open>actionCommand ?? displayText\<close> is the display text.
\<close>

theorem null_command_counterexample:
  "is_object (Obj [(js ''display_text'', Str (js ''attack'')), (js ''action_command'', Null)])
   \<and> truthy (propOf (Obj [(js ''display_text'', Str (js ''attack'')), (js ''action_command'', Null)]) (js ''display_text''))
   \<and> actionCommand (suggestion_button (Obj [(js ''display_text'', Str (js ''attack'')), (js ''action_command'', Null)])) = Null
   \<and> nullish_coalesce (propOf (Obj [(js ''display_text'', Str (js ''attack'')), (js ''action_command'', Null)]) (js ''action_command''))
         (propOf (Obj [(js ''display_text'', Str (js ''attack'')), (js ''action_command'', Null)]) (js ''display_text''))
       = Str (js ''attack'')
   \<and> actionCommand (suggestion_button (Obj [(js ''display_text'', Str (js ''attack'')), (js ''action_command'', Null)]))
       \<noteq> nullish_coalesce (propOf (Obj [(js ''display_text'', Str (js ''attack'')), (js ''action_command'', Null)]) (js ''action_command''))
         (propOf (Obj [(js ''display_text'', Str (js ''attack'')), (js ''action_command'', Null)]) (js ''display_text''))"
  by (simp add: suggestion_button_def propOf_def nullish_coalesce_def js_def)

text \<open>
  C7, amended: the plain string \<^verbatim>\<open>"look around"\<close> gives a button with that display text,
  that action command and no details; the structured choice with the display text
  \<^verbatim>\<open>U+653B U+51FB\<close> and the details \<^verbatim>\<open>["U+529B U+91CF +2"]\<close> (no action command) gives
  that display text, the same text as action command, and those details. In general an
  object with a truthy \<^verbatim>\<open>display_text\<close> gives that display text, the
  \<^verbatim>\<open>action_command\<close> when the field is there (whatever its value, \<^verbatim>\<open>null\<close> included)
  and the display text when it is missing, and the details when they are an array; any other
  raw value is both display text and action command. A non-empty array of choices is
  rendered as the buttons of its elements, in order.
\<close>

theorem choice_normalization:
  "suggestion_button (Str (js ''look around'')) =
     \<lparr>displayText = Str (js ''look around''), actionCommand = Str (js ''look around''),
      details = None, btn_disabled = False\<rparr>
   \<and> suggestion_button (Obj [(js ''display_text'', Str [0x653B, 0x51FB]),
                              (js ''details'', Arr [Str [0x529B, 0x91CF, 43, 50]])]) =
     \<lparr>displayText = Str [0x653B, 0x51FB], actionCommand = Str [0x653B, 0x51FB],
      details = Some [Str [0x529B, 0x91CF, 43, 50]], btn_disabled = False\<rparr>
   \<and> (is_object choice \<and> truthy (propOf choice (js ''display_text'')) \<longrightarrow>
        displayText (suggestion_button choice) = propOf choice (js ''display_text'')
        \<and> actionCommand (suggestion_button choice) =
            (if propOf choice (js ''action_command'') = Undefined
             then propOf choice (js ''display_text'') else propOf choice (js ''action_command''))
        \<and> details (suggestion_button choice) =
            (case propOf choice (js ''details'') of Arr ds \<Rightarrow> Some ds | _ \<Rightarrow> None))
   \<and> (\<not> (is_object choice \<and> truthy (propOf choice (js ''display_text''))) \<longrightarrow>
        displayText (suggestion_button choice) = choice
        \<and> actionCommand (suggestion_button choice) = choice
        \<and> details (suggestion_button choice) = None)
   \<and> (\<forall>h w. renderGameSuggestions h (Arr (choice # choices)) w =
        (Return (), w\<lparr>gameSuggestions := map suggestion_button (choice # choices)\<rparr>))"
proof (intro conjI impI allI)
  show "suggestion_button (Str (js ''look around'')) =
     \<lparr>displayText = Str (js ''look around''), actionCommand = Str (js ''look around''),
      details = None, btn_disabled = False\<rparr>"
    by (simp add: suggestion_button_def)
  show "suggestion_button (Obj [(js ''display_text'', Str [0x653B, 0x51FB]),
                              (js ''details'', Arr [Str [0x529B, 0x91CF, 43, 50]])]) =
     \<lparr>displayText = Str [0x653B, 0x51FB], actionCommand = Str [0x653B, 0x51FB],
      details = Some [Str [0x529B, 0x91CF, 43, 50]], btn_disabled = False\<rparr>"
    by (simp add: suggestion_button_def propOf_def js_def)
next
  assume a: "is_object choice \<and> truthy (propOf choice (js ''display_text''))"
  then show "displayText (suggestion_button choice) = propOf choice (js ''display_text'')"
    "actionCommand (suggestion_button choice) =
            (if propOf choice (js ''action_command'') = Undefined
             then propOf choice (js ''display_text'') else propOf choice (js ''action_command''))"
    by (simp_all add: suggestion_button_def)
  show "details (suggestion_button choice) =
            (case propOf choice (js ''details'') of Arr ds \<Rightarrow> Some ds | _ \<Rightarrow> None)"
    using a by (cases "propOf choice (js ''details'')") (simp_all add: suggestion_button_def)
next
  assume a: "\<not> (is_object choice \<and> truthy (propOf choice (js ''display_text'')))"
  then show "displayText (suggestion_button choice) = choice"
    "actionCommand (suggestion_button choice) = choice"
    "details (suggestion_button choice) = None"
    by (auto simp: suggestion_button_def)
next
  fix h w
  show "renderGameSuggestions h (Arr (choice # choices)) w =
        (Return (), w\<lparr>gameSuggestions := map suggestion_button (choice # choices)\<rparr>)"
    by (simp add: renderGameSuggestions_def length_gt0_def propOf_def)
qed

theorem choice_normalization_witness:
  "suggestion_button (Obj [(js ''display_text'', Str (js ''Attack'')),
        (js ''action_command'', Str (js ''attack the goblin'')), (js ''details'', Arr [Str (js ''STR+2'')])])
     = \<lparr>displayText = Str (js ''Attack''), actionCommand = Str (js ''attack the goblin''),
        details = Some [Str (js ''STR+2'')], btn_disabled = False\<rparr>
   \<and> suggestion_button (Num 5)
     = \<lparr>displayText = Num 5, actionCommand = Num 5, details = None, btn_disabled = False\<rparr>"
proof -
  let ?c = "Obj [(js ''display_text'', Str (js ''Attack'')),
        (js ''action_command'', Str (js ''attack the goblin'')), (js ''details'', Arr [Str (js ''STR+2'')])]"
  have 1: "is_object ?c \<and> truthy (propOf ?c (js ''display_text''))"
    by (simp add: propOf_def js_def)
  have 2: "\<not> (is_object (Num 5) \<and> truthy (propOf (Num 5) (js ''display_text'')))"
    by simp
  have p: "propOf ?c (js ''display_text'') = Str (js ''Attack'')"
    "propOf ?c (js ''action_command'') = Str (js ''attack the goblin'')"
    "propOf ?c (js ''details'') = Arr [Str (js ''STR+2'')]"
    by (simp_all add: propOf_def js_def)
  note T = choice_normalization [of ?c, THEN conjunct2, THEN conjunct2, THEN conjunct1, rule_format, OF 1, unfolded p]
  note U = choice_normalization [of "Num 5", THEN conjunct2, THEN conjunct2, THEN conjunct2, THEN conjunct1, rule_format, OF 2]
  have d: "btn_disabled (suggestion_button ?c) = False" "btn_disabled (suggestion_button (Num 5)) = False"
    by (simp_all add: suggestion_button_def)
  show ?thesis
    using T U d by (simp add: suggestion_btn.equality)
qed

subsection \<open>C8: retry submits the last attempted action\<close>

text \<open>
  C8. After a submission that has run to its end (failed or not), the last attempted action is
  recorded in \<^verbatim>\<open>state.lastPlayerAction\<close> and the retry button is shown and enabled.
  Whatever the input box holds by then, a click on the retry button is
  \<^verbatim>\<open>handleActionSubmit(null, lastPlayerAction)\<close>: the first call it issues carries exactly
  the recorded action, the input box keeps its contents, and the recorded action stays.
\<close>

theorem retry_resubmits_last_action:
  assumes "handleActionSubmit h actionText w = (Return (), w1)"
    and "truthy (submitted_action actionText w)"
  shows "lastPlayerAction w1 = submitted_action actionText w
    \<and> retryAiBtn_shown w1 \<and> \<not> retryAiBtn_disabled w1
    \<and> (\<forall>typed.
          click_retry h (w1\<lparr>actionInput := typed\<rparr>)
            = handleActionSubmit h (submitted_action actionText w) (w1\<lparr>actionInput := typed\<rparr>)
          \<and> issued (w1\<lparr>actionInput := typed\<rparr>) (snd (click_retry h (w1\<lparr>actionInput := typed\<rparr>))) \<noteq> []
          \<and> body (hd (issued (w1\<lparr>actionInput := typed\<rparr>) (snd (click_retry h (w1\<lparr>actionInput := typed\<rparr>)))))
              = Some (Obj [(js ''action'', submitted_action actionText w)])
          \<and> actionInput (snd (click_retry h (w1\<lparr>actionInput := typed\<rparr>))) = typed
          \<and> lastPlayerAction (snd (click_retry h (w1\<lparr>actionInput := typed\<rparr>))) = submitted_action actionText w)"
proof -
  let ?a = "submitted_action actionText w"
  have l: "lastPlayerAction w1 = ?a"
    using handleActionSubmit_run(2) [OF assms(2), of h] assms(1) by simp
  have b: "retryAiBtn_shown w1 \<and> \<not> retryAiBtn_disabled w1"
    using handleActionSubmit_run(4) [OF assms(2), of h] assms(1) by simp
  have r: "click_retry h (w1\<lparr>actionInput := typed\<rparr>)
            = handleActionSubmit h ?a (w1\<lparr>actionInput := typed\<rparr>)
      \<and> issued (w1\<lparr>actionInput := typed\<rparr>) (snd (click_retry h (w1\<lparr>actionInput := typed\<rparr>))) \<noteq> []
      \<and> body (hd (issued (w1\<lparr>actionInput := typed\<rparr>) (snd (click_retry h (w1\<lparr>actionInput := typed\<rparr>)))))
              = Some (Obj [(js ''action'', ?a)])
      \<and> actionInput (snd (click_retry h (w1\<lparr>actionInput := typed\<rparr>))) = typed
      \<and> lastPlayerAction (snd (click_retry h (w1\<lparr>actionInput := typed\<rparr>))) = ?a" for typed
  proof -
    let ?w = "w1\<lparr>actionInput := typed\<rparr>"
    have c: "click_retry h ?w = handleActionSubmit h ?a ?w"
      using l assms(2) by (simp add: click_retry_def)
    have s: "submitted_action ?a ?w = ?a"
      using assms(2) by (simp add: submitted_action_def)
    then have ts: "truthy (submitted_action ?a ?w)"
      using assms(2) by simp
    let ?w1 = "begin_submission ?a ?a ?w"
    from fetchWithAuth_calls [of "action_endpoint ?w1" "action_options ?a" ?w1]
    obtain new where n: "network (snd (fetchWithAuth (action_endpoint ?w1) (action_options ?a) ?w1))
        = network ?w1 @ pipeline_request (action_endpoint ?w1) (action_options ?a) ?w1 # new"
      by blast
    have nb: "network ?w1 = network w1"
      by (simp add: begin_submission_def Let_def)
    have "network (snd (handleActionSubmit h ?a ?w))
        = network w1 @ pipeline_request (action_endpoint ?w1) (action_options ?a) ?w1 # new"
      using handleActionSubmit_run(1) [OF ts, of h] n nb by (simp add: s)
    then have i: "issued ?w (snd (handleActionSubmit h ?a ?w))
        = pipeline_request (action_endpoint ?w1) (action_options ?a) ?w1 # new"
      by (simp add: issued_def)
    have bd: "body (pipeline_request (action_endpoint ?w1) (action_options ?a) ?w1)
        = Some (Obj [(js ''action'', ?a)])"
      by (simp add: pipeline_request_def Let_def action_options_def)
    have ai: "actionInput (snd (handleActionSubmit h ?a ?w)) = typed"
      using handleActionSubmit_run(3) [OF ts, of h] assms(2) by (simp add: s)
    have la: "lastPlayerAction (snd (handleActionSubmit h ?a ?w)) = ?a"
      using handleActionSubmit_run(2) [OF ts, of h] by (simp add: s)
    show ?thesis
      using c i bd ai la by simp
  qed
  show ?thesis
    using l b r by blast
qed

theorem retry_resubmits_last_action_witness:
  "fst (handleActionSubmit plain_host Undefined typed_go) = Return ()
   \<and> truthy (submitted_action Undefined typed_go)
   \<and> lastPlayerAction (snd (handleActionSubmit plain_host Undefined typed_go)) = Str (js ''go north'')
   \<and> actionInput (snd (handleActionSubmit plain_host Undefined typed_go)) = []
   \<and> body (hd (issued ((snd (handleActionSubmit plain_host Undefined typed_go))\<lparr>actionInput := js ''flee''\<rparr>)
        (snd (click_retry plain_host ((snd (handleActionSubmit plain_host Undefined typed_go))\<lparr>actionInput := js ''flee''\<rparr>)))))
       = Some (Obj [(js ''action'', Str (js ''go north''))])
   \<and> actionInput (snd (click_retry plain_host ((snd (handleActionSubmit plain_host Undefined typed_go))\<lparr>actionInput := js ''flee''\<rparr>)))
       = js ''flee''"
proof -
  obtain w1 where run: "handleActionSubmit plain_host Undefined typed_go = (Return (), w1)"
    by (simp add: typed_go_def run_defs error_reply_def nat_digits.simps trim_def is_space_def)
  have sa: "submitted_action Undefined typed_go = Str (js ''go north'')"
    by (simp add: typed_go_def submitted_action_def trim_def is_space_def js_def)
  then have t: "truthy (submitted_action Undefined typed_go)"
    by (simp add: js_def)
  have ai: "actionInput w1 = []"
    using handleActionSubmit_run(3) [OF t, of plain_host] run by simp
  note T = retry_resubmits_last_action [OF run t, unfolded sa]
  from T have l: "lastPlayerAction w1 = Str (js ''go north'')"
    by blast
  from T have r: "body (hd (issued (w1\<lparr>actionInput := js ''flee''\<rparr>)
        (snd (click_retry plain_host (w1\<lparr>actionInput := js ''flee''\<rparr>)))))
       = Some (Obj [(js ''action'', Str (js ''go north''))])
     \<and> actionInput (snd (click_retry plain_host (w1\<lparr>actionInput := js ''flee''\<rparr>))) = js ''flee''"
    by blast
  have e: "snd (handleActionSubmit plain_host Undefined typed_go) = w1"
    "fst (handleActionSubmit plain_host Undefined typed_go) = Return ()"
    using run by simp_all
  show ?thesis
    unfolding e using t l r ai by blast
qed

subsection \<open>C9: an empty action command\<close>



subsection \<open>C10: a session without a current state\<close>

text \<open>
  C10. When the session payload has no \<^verbatim>\<open>current_state\<close> (the field is missing or falsy),
  \<^verbatim>\<open>startGame\<close> shows the error and returns: the session id, the world name, the game
  log, the last action, the network and the view are as before, so no action has been
  submitted. Whenever \<^verbatim>\<open>startGame\<close> changes the view, \<^verbatim>\<open>current_state\<close> is there.
\<close>

theorem startGame_without_state:
  "(getp sessionData (js ''current_state'') = Return currentState \<and> \<not> truthy currentState \<longrightarrow>
      startGame h sessionData w = (Return (), handleApiError msg_corrupt None False w)
      \<and> currentSessionId (snd (startGame h sessionData w)) = currentSessionId w
      \<and> currentWorldName (snd (startGame h sessionData w)) = currentWorldName w
      \<and> gameLog (snd (startGame h sessionData w)) = gameLog w
      \<and> lastPlayerAction (snd (startGame h sessionData w)) = lastPlayerAction w
      \<and> network (snd (startGame h sessionData w)) = network w
      \<and> view (snd (startGame h sessionData w)) = view w
      \<and> shown (globalError (snd (startGame h sessionData w))))
   \<and> (view (snd (startGame h sessionData w)) \<noteq> view w \<longrightarrow>
        truthy (propOf sessionData (js ''current_state'')))"
proof (intro conjI impI)
  assume a: "getp sessionData (js ''current_state'') = Return currentState \<and> \<not> truthy currentState"
  then show s: "startGame h sessionData w = (Return (), handleApiError msg_corrupt None False w)"
    by (simp add: startGame_def andThen_def)
  show "currentSessionId (snd (startGame h sessionData w)) = currentSessionId w"
    "currentWorldName (snd (startGame h sessionData w)) = currentWorldName w"
    "gameLog (snd (startGame h sessionData w)) = gameLog w"
    "lastPlayerAction (snd (startGame h sessionData w)) = lastPlayerAction w"
    "network (snd (startGame h sessionData w)) = network w"
    "view (snd (startGame h sessionData w)) = view w"
    "shown (globalError (snd (startGame h sessionData w)))"
    by (simp_all add: s handleApiError_def)
next
  assume v: "view (snd (startGame h sessionData w)) \<noteq> view w"
  show "truthy (propOf sessionData (js ''current_state''))"
  proof (rule ccontr)
    assume n: "\<not> truthy (propOf sessionData (js ''current_state''))"
    have "view (snd (startGame h sessionData w)) = view w"
    proof (cases "getp sessionData (js ''current_state'')")
      case (Return cs)
      with n have "\<not> truthy cs"
        by (simp add: propOf_def)
      with Return show ?thesis
        by (simp add: startGame_def andThen_def handleApiError_def)
    next
      case (Throw e)
      then show ?thesis
        by (simp add: startGame_def andThen_def)
    next
      case Pending
      then show ?thesis
        by (simp add: startGame_def andThen_def)
    qed
    with v show False by simp
  qed
qed

theorem startGame_without_state_witness:
  "startGame plain_host (Obj [(js ''session_id'', Num 9), (js ''world_name'', Str (js ''Other''))])
       (playing [turn_reply ''A''])
     = (Return (), handleApiError msg_corrupt None False (playing [turn_reply ''A'']))
   \<and> currentSessionId (snd (startGame plain_host
        (Obj [(js ''session_id'', Num 9), (js ''world_name'', Str (js ''Other''))])
        (playing [turn_reply ''A'']))) = Num 7
   \<and> view (snd (startGame plain_host
        (Obj [(js ''session_id'', Num 9), (js ''current_state'', Obj [])]) (page logged_in [])))
       = js ''game-view''
   \<and> truthy (propOf (Obj [(js ''session_id'', Num 9), (js ''current_state'', Obj [])]) (js ''current_state''))"
proof -
  let ?sd = "Obj [(js ''session_id'', Num 9), (js ''world_name'', Str (js ''Other''))]"
  let ?ok = "Obj [(js ''session_id'', Num 9), (js ''current_state'', Obj [])]"
  have 1: "getp ?sd (js ''current_state'') = Return Undefined \<and> \<not> truthy Undefined"
    by (simp add: js_def)
  have 2: "view (snd (startGame plain_host ?ok (page logged_in []))) = js ''game-view''"
    by (simp add: startGame_def run_defs showView_def msg_look_around_def nat_digits.simps)
  have 3: "view (page logged_in []) \<noteq> js ''game-view''"
    by (simp add: page_def js_def)
  note T = startGame_without_state [of ?sd Undefined plain_host "playing [turn_reply ''A'']"]
  note U = startGame_without_state [of ?ok Undefined plain_host "page logged_in []"]
  from T 1 have a: "startGame plain_host ?sd (playing [turn_reply ''A''])
        = (Return (), handleApiError msg_corrupt None False (playing [turn_reply ''A'']))
      \<and> currentSessionId (snd (startGame plain_host ?sd (playing [turn_reply ''A'']))) = currentSessionId (playing [turn_reply ''A''])"
    by blast
  have b: "currentSessionId (playing [turn_reply ''A'']) = Num 7"
    by (simp add: playing_def)
  from U 2 3 have c: "truthy (propOf ?ok (js ''current_state''))"
    by metis
  show ?thesis
    using a [unfolded b] 2 c by blast
qed

end
